theory Spec2Isabelle
  imports Main "HOL-Library.Word"
begin

unbundle bit_operations_syntax

section \<open>Header store of electrum/blockchain.py\<close>

text \<open>
  A shallow embedding of \<^verbatim>\<open>electrum/blockchain.py\<close>. Python integers are \<open>int\<close>,
  \<^verbatim>\<open>bytes\<close> are lists of 8-bit words, \<^verbatim>\<open>str\<close> is \<open>string\<close>. Every \<^verbatim>\<open>raise\<close> of the
  source is an \<open>Inl\<close> value of the result type \<open>error + 'a\<close>.
\<close>

subsection \<open>Exceptions\<close>

text \<open>
  The exception classes the module raises itself (\<^verbatim>\<open>MissingHeader\<close>, \<^verbatim>\<open>InvalidHeader\<close>,
  the generic \<^verbatim>\<open>Exception(msg)\<close> with the fixed part of its message) and the builtin
  ones its expressions can raise. All of them are subclasses of \<^verbatim>\<open>Exception\<close>, so a bare
  \<^verbatim>\<open>except:\<close>, \<^verbatim>\<open>except Exception\<close> and \<^verbatim>\<open>except BaseException\<close> catch every value
  of this type, and \<^verbatim>\<open>except MissingHeader\<close> catches the first constructor only.
\<close>

datatype error =
    MissingHeader int
  | InvalidHeader
  | Exception string
  | AssertionError
  | AttributeError
  | IndexError
  | KeyError
  | NameError
  | TypeError
  | ValueError
  | OverflowError
  | OSError
  | FileNotFoundError
  | RecursionError

type_synonym bytes = "8 word list"

subsection \<open>Python builtins used by the module\<close>

text \<open>\<^verbatim>\<open>s[a:b]\<close> for offsets \<open>0 \<le> a\<close>, \<open>0 \<le> b\<close>.\<close>

definition slice :: "'a list \<Rightarrow> nat \<Rightarrow> nat \<Rightarrow> 'a list" where
  "slice s a b = take (b - a) (drop a s)"

text \<open>\<^verbatim>\<open>xs[i]\<close>: a negative index counts from the end, out of range raises IndexError.\<close>

definition py_index :: "'a list \<Rightarrow> int \<Rightarrow> error + 'a" where
  "py_index xs i =
     (if 0 \<le> i \<and> i < int (length xs) then Inr (xs ! nat i)
      else if i < 0 \<and> - int (length xs) \<le> i then Inr (xs ! nat (int (length xs) + i))
      else Inl IndexError)"

text \<open>\<^verbatim>\<open>int.from_bytes(s, byteorder='little')\<close> and \<^verbatim>\<open>byteorder='big'\<close>.\<close>

fun from_bytes_little :: "bytes \<Rightarrow> int" where
  "from_bytes_little [] = 0"
| "from_bytes_little (b # bs) = uint b + 256 * from_bytes_little bs"

definition from_bytes_big :: "bytes \<Rightarrow> int" where
  "from_bytes_big bs = foldl (\<lambda>acc b. acc * 256 + uint b) 0 bs"

definition hexchar :: "nat \<Rightarrow> char" where
  "hexchar n = ''0123456789abcdef'' ! n"

function hex_digits :: "nat \<Rightarrow> string" where
  "hex_digits n = (if n < 16 then [hexchar n] else hex_digits (n div 16) @ [hexchar (n mod 16)])"
  by pat_completeness auto
termination
  by (relation "measure id") auto

function dec_digits :: "nat \<Rightarrow> string" where
  "dec_digits n = (if n < 10 then [hexchar n] else dec_digits (n div 10) @ [hexchar (n mod 10)])"
  by pat_completeness auto
termination
  by (relation "measure id") auto

text \<open>\<^verbatim>\<open>str(i)\<close>, as an f-string formats an integer.\<close>

definition str_int :: "int \<Rightarrow> string" where
  "str_int i = (if i < 0 then CHR ''-'' # dec_digits (nat (- i)) else dec_digits (nat i))"

definition zfill :: "nat \<Rightarrow> string \<Rightarrow> string" where
  "zfill w s = replicate (w - length s) CHR ''0'' @ s"

text \<open>
  \<^verbatim>\<open>"%064x" % target\<close>: lower-case hexadecimal, padded with zeros to at least 64
  characters; for a negative number the sign comes first and counts in the width.
\<close>

definition fmt_064x :: "int \<Rightarrow> string" where
  "fmt_064x t =
     (if 0 \<le> t then zfill 64 (hex_digits (nat t))
      else CHR ''-'' # zfill 63 (hex_digits (nat (- t))))"

text \<open>\<^verbatim>\<open>s.lstrip('0')\<close>.\<close>

definition lstrip0 :: "string \<Rightarrow> string" where
  "lstrip0 s = dropWhile (\<lambda>c. c = CHR ''0'') s"

subsection \<open>Hex helpers of util.py and bitcoin.py\<close>

text \<open>
  Modelled from the spec: \<^verbatim>\<open>util.bfh\<close>, \<^verbatim>\<open>util.bh2u\<close>, \<^verbatim>\<open>bitcoin.hash_encode\<close> and
  \<^verbatim>\<open>bitcoin.rev_hex\<close> are imported by blockchain.py and are not among the source
  files. Section 4.B of the spec gives \<^verbatim>\<open>hash_encode\<close> as "reverses bytes then
  hex-encodes" and section 6 fixes display hashes as lower-case hex. \<^verbatim>\<open>bfh\<close> is taken
  as Python's \<^verbatim>\<open>bytes.fromhex\<close> (two hex digits per byte, white space allowed between
  bytes, ValueError otherwise) and \<^verbatim>\<open>bh2u\<close> as \<^verbatim>\<open>bytes.hex\<close>.
\<close>

definition hexval :: "char \<Rightarrow> nat option" where
  "hexval c =
     (let n = (of_char c :: nat)
      in if 48 \<le> n \<and> n \<le> 57 then Some (n - 48)
         else if 97 \<le> n \<and> n \<le> 102 then Some (n - 87)
         else if 65 \<le> n \<and> n \<le> 70 then Some (n - 55)
         else None)"

definition is_space :: "char \<Rightarrow> bool" where
  "is_space c = ((of_char c :: nat) \<in> {9, 10, 11, 12, 13, 32})"

fun bfh :: "string \<Rightarrow> error + bytes" where
  "bfh [] = Inr []"
| "bfh [c] = (if is_space c then Inr [] else Inl ValueError)"
| "bfh (c # d # cs) =
     (if is_space c then bfh (d # cs)
      else (case (hexval c, hexval d) of
              (Some a, Some b) \<Rightarrow>
                (case bfh cs of Inl e \<Rightarrow> Inl e | Inr bs \<Rightarrow> Inr (of_nat (a * 16 + b) # bs))
            | _ \<Rightarrow> Inl ValueError))"

definition bh2u :: "bytes \<Rightarrow> string" where
  "bh2u bs = concat (map (\<lambda>b. [hexchar (unat b div 16), hexchar (unat b mod 16)]) bs)"

definition hash_encode :: "bytes \<Rightarrow> string" where
  "hash_encode x = bh2u (rev x)"

definition rev_hex :: "string \<Rightarrow> error + string" where
  "rev_hex s = (case bfh s of Inl e \<Rightarrow> Inl e | Inr bs \<Rightarrow> Inr (bh2u (rev bs)))"

subsection \<open>Data model\<close>

text \<open>
  A PowData dictionary: the spec's "at least \<^verbatim>\<open>{algo, bits}\<close>" and the rest of it, opaque
  to this module, as bytes.
\<close>

record powdata =
  algo :: int
  pow_bits :: int
  pow_rest :: bytes

text \<open>
  A header dictionary. The keys the module itself leaves out or sets to \<^verbatim>\<open>None\<close> are
  options: \<^verbatim>\<open>prev_block_hash\<close> (\<^verbatim>\<open>hash_header\<close> fills it in), \<^verbatim>\<open>block_height\<close>
  (\<^verbatim>\<open>deserialize_full_header\<close> accepts \<^verbatim>\<open>height=None\<close>), \<^verbatim>\<open>powdata\<close> (absent from a pure
  header) and \<^verbatim>\<open>chainwork\<close> (absent until a header is stored).
\<close>

record header =
  version :: int
  prev_block_hash :: "string option"
  merkle_root :: string
  timestamp :: int
  bits :: int
  nonce :: int
  block_height :: "int option"
  powdata :: "powdata option"
  chainwork :: "int option"

text \<open>The difficulty data of one block: \<^verbatim>\<open>{"height", "timestamp", "bits"}\<close>.\<close>

record diffdata =
  dd_height :: int
  dd_timestamp :: int
  dd_bits :: int

text \<open>One entry of \<^verbatim>\<open>constants.net.CHECKPOINTS\<close>; \<^verbatim>\<open>algo_headers\<close> is keyed by \<^verbatim>\<open>f"{algo}"\<close>.\<close>

record checkpoint =
  cp_hash :: string
  cp_chainwork :: int
  cp_algo_headers :: "(string \<times> diffdata list) list"

text \<open>The network parameters \<^verbatim>\<open>constants.net\<close>, read-only configuration.\<close>

record net =
  GENESIS :: string
  TESTNET :: bool
  CHECKPOINTS :: "checkpoint list"

text \<open>
  Modelled from the spec: \<^verbatim>\<open>constants.net.max_checkpoint()\<close> is not among the source
  files; section 6 of the spec defines it as \<^verbatim>\<open>len(CHECKPOINTS)*2016 - 1\<close>.
\<close>

definition max_checkpoint :: "net \<Rightarrow> int" where
  "max_checkpoint n = int (length (CHECKPOINTS n)) * 2016 - 1"

text \<open>
  The external collaborators, taken as parameters: \<^verbatim>\<open>crypto.sha256d\<close>,
  \<^verbatim>\<open>bitcoin.int_to_hex\<close>, the \<^verbatim>\<open>powdata\<close> module (\<^verbatim>\<open>deserialize_base\<close>, \<^verbatim>\<open>deserialize\<close>,
  \<^verbatim>\<open>verify\<close>) and \<^verbatim>\<open>difficulty.get_target\<close>, which receives the getter, the algorithm
  and the height. Each may raise.
\<close>

record ext =
  sha256d :: "bytes \<Rightarrow> bytes"
  int_to_hex :: "int \<Rightarrow> nat \<Rightarrow> error + string"
  deserialize_base :: "bytes \<Rightarrow> nat \<Rightarrow> error + (powdata \<times> nat)"
  deserialize :: "bytes \<Rightarrow> nat \<Rightarrow> error + (powdata \<times> nat)"
  pow_verify :: "powdata \<Rightarrow> string \<Rightarrow> error + unit"
  get_target :: "(int \<Rightarrow> int \<Rightarrow> error + diffdata option) \<Rightarrow> int \<Rightarrow> int option \<Rightarrow> error + int"

definition PURE_HEADER_SIZE :: nat where
  "PURE_HEADER_SIZE = 80"

definition DISK_HEADER_SIZE :: nat where
  "DISK_HEADER_SIZE = PURE_HEADER_SIZE + 5 + 32"

subsection \<open>Header codec\<close>

definition serialize_pure_header :: "ext \<Rightarrow> header \<Rightarrow> error + string" where
  "serialize_pure_header e h =
     (case int_to_hex e (version h) 4 of Inl x \<Rightarrow> Inl x | Inr s1 \<Rightarrow>
      (case prev_block_hash h of None \<Rightarrow> Inl TypeError | Some ph \<Rightarrow>
      (case rev_hex ph of Inl x \<Rightarrow> Inl x | Inr s2 \<Rightarrow>
      (case rev_hex (merkle_root h) of Inl x \<Rightarrow> Inl x | Inr s3 \<Rightarrow>
      (case int_to_hex e (timestamp h) 4 of Inl x \<Rightarrow> Inl x | Inr s4 \<Rightarrow>
      (case int_to_hex e (bits h) 4 of Inl x \<Rightarrow> Inl x | Inr s5 \<Rightarrow>
      (case int_to_hex e (nonce h) 4 of Inl x \<Rightarrow> Inl x | Inr s6 \<Rightarrow>
         Inr (s1 @ s2 @ s3 @ s4 @ s5 @ s6))))))))"

definition deserialize_pure_header :: "bytes \<Rightarrow> int option \<Rightarrow> error + header" where
  "deserialize_pure_header s height =
     (if s = [] then Inl InvalidHeader
      else if length s \<noteq> PURE_HEADER_SIZE then Inl InvalidHeader
      else Inr \<lparr> version = from_bytes_little (slice s 0 4),
                 prev_block_hash = Some (hash_encode (slice s 4 36)),
                 merkle_root = hash_encode (slice s 36 68),
                 timestamp = from_bytes_little (slice s 68 72),
                 bits = from_bytes_little (slice s 72 76),
                 nonce = from_bytes_little (slice s 76 80),
                 block_height = height,
                 powdata = None,
                 chainwork = None \<rparr>)"

text \<open>
  \<^verbatim>\<open>deserialize_disk_header\<close>. The message of its first \<^verbatim>\<open>raise\<close> names the undefined
  variable \<^verbatim>\<open>original_len\<close>, so that branch raises NameError.
\<close>

definition deserialize_disk_header :: "ext \<Rightarrow> bytes \<Rightarrow> int option \<Rightarrow> error + header" where
  "deserialize_disk_header e s height =
     (case deserialize_pure_header (take PURE_HEADER_SIZE s) height of Inl x \<Rightarrow> Inl x | Inr h \<Rightarrow>
      (case deserialize_base e s PURE_HEADER_SIZE of Inl x \<Rightarrow> Inl x | Inr (pd, start_position) \<Rightarrow>
        (let work_bytes = slice s start_position (start_position + 32)
         in if length work_bytes < 32 then Inl NameError
            else if start_position + 32 \<noteq> length s then Inl (Exception ''Invalid header length'')
            else Inr (h \<lparr> powdata := Some pd, chainwork := Some (from_bytes_big work_bytes) \<rparr>))))"

text \<open>
  \<^verbatim>\<open>deserialize_full_header\<close>. It returns the pair of header and end position when
  \<^verbatim>\<open>expect_trailing_data\<close> is set and the header alone otherwise: the position is an
  option here.
\<close>

definition deserialize_full_header ::
  "ext \<Rightarrow> net \<Rightarrow> bytes \<Rightarrow> int option \<Rightarrow> bool \<Rightarrow> nat \<Rightarrow> error + (header \<times> nat option)" where
  "deserialize_full_header e n s height expect_trailing_data start_position =
     (case deserialize_pure_header (slice s start_position (start_position + PURE_HEADER_SIZE)) height of
        Inl x \<Rightarrow> Inl x
      | Inr h \<Rightarrow>
        (let pos = start_position + PURE_HEADER_SIZE;
             height' = (if height = Some 0 \<and> CHECKPOINTS n = [] then None else height);
             parsed = (if height' \<noteq> None \<and> the height' \<le> max_checkpoint n
                       then deserialize_base e s pos
                       else deserialize e s pos)
         in case parsed of
              Inl x \<Rightarrow> Inl x
            | Inr (pd, end_position) \<Rightarrow>
                if expect_trailing_data then Inr (h \<lparr> powdata := Some pd \<rparr>, Some end_position)
                else if end_position \<noteq> length s then Inl (Exception ''Invalid header length'')
                else Inr (h \<lparr> powdata := Some pd \<rparr>, None)))"

subsection \<open>Hashing\<close>

definition hash_raw_header :: "ext \<Rightarrow> string \<Rightarrow> error + string" where
  "hash_raw_header e header_hex =
     (case bfh header_hex of Inl x \<Rightarrow> Inl x | Inr bs \<Rightarrow> Inr (hash_encode (sha256d e bs)))"

text \<open>
  \<^verbatim>\<open>hash_header\<close> writes \<^verbatim>\<open>'00'*32\<close> into a header whose \<^verbatim>\<open>prev_block_hash\<close> is \<^verbatim>\<open>None\<close>;
  the header as it is afterwards is returned beside the hash.
\<close>

definition hash_header :: "ext \<Rightarrow> header option \<Rightarrow> error + (string \<times> header option)" where
  "hash_header e header =
     (case header of
        None \<Rightarrow> Inr (replicate 64 CHR ''0'', None)
      | Some h \<Rightarrow>
          (let h' = (if prev_block_hash h = None
                     then h \<lparr> prev_block_hash := Some (concat (replicate 32 ''00'')) \<rparr> else h)
           in case serialize_pure_header e h' of
                Inl x \<Rightarrow> Inl x
              | Inr s \<Rightarrow> (case hash_raw_header e s of
                            Inl x \<Rightarrow> Inl x
                          | Inr hh \<Rightarrow> Inr (hh, Some h'))))"

subsection \<open>Compact targets\<close>

definition bits_to_target :: "int \<Rightarrow> error + int" where
  "bits_to_target bits' =
     (let bitsN = (drop_bit 24 bits') AND 0xff
      in if \<not> (0x03 \<le> bitsN \<and> bitsN \<le> 0x20)
         then Inl (Exception ''First part of bits should be in [0x03, 0x20]'')
         else (let bitsBase = bits' AND 0xffffff
               in if \<not> (0x8000 \<le> bitsBase \<and> bitsBase \<le> 0x7fffff)
                  then Inl (Exception ''Second part of bits should be in [0x8000, 0x7fffff]'')
                  else Inr (push_bit (nat (8 * (bitsN - 3))) bitsBase)))"

text \<open>The loop \<^verbatim>\<open>while c[:2] == '00' and len(c) > 6: c = c[2:]\<close>.\<close>

function strip00 :: "string \<Rightarrow> string" where
  "strip00 c = (if take 2 c = ''00'' \<and> length c > 6 then strip00 (drop 2 c) else c)"
  by pat_completeness auto
termination
  by (relation "measure length") auto

definition target_to_bits :: "int \<Rightarrow> error + int" where
  "target_to_bits target =
     (let c = strip00 (drop 2 (fmt_064x target))
      in case bfh (take 6 c) of
           Inl x \<Rightarrow> Inl x
         | Inr bs \<Rightarrow>
            (let bitsN = int (length c div 2); bitsBase = from_bytes_big bs
             in if bitsBase \<ge> 0x800000
                then Inr (push_bit 24 (bitsN + 1) OR drop_bit 8 bitsBase)
                else Inr (push_bit 24 bitsN OR bitsBase)))"

subsection \<open>Chains, files and the registry\<close>

text \<open>
  A \<^verbatim>\<open>Blockchain\<close> object: \<^verbatim>\<open>forkpoint\<close>, \<^verbatim>\<open>parent\<close> (a reference to another object),
  \<^verbatim>\<open>_forkpoint_hash\<close>, \<^verbatim>\<open>_prev_hash\<close> and the cached \<^verbatim>\<open>_size\<close>. Objects are shared and
  mutated, so they live in a store indexed by reference.
\<close>

record blockchain =
  forkpoint :: int
  parent :: "nat option"
  forkpoint_hash :: string
  prev_hash :: "string option"
  bc_size :: int

text \<open>
  The state: the objects, the files under the headers directory (by their name relative
  to it) and the module-level dictionary \<^verbatim>\<open>blockchains\<close> in insertion order. A raise
  ends a run of the model; the state it leaves behind is not kept. Locks are left out:
  the model is sequential.
\<close>

record world =
  objs :: "nat \<Rightarrow> blockchain"
  files :: "string \<Rightarrow> bytes option"
  blockchains :: "(string \<times> nat) list"

definition upd :: "world \<Rightarrow> nat \<Rightarrow> (blockchain \<Rightarrow> blockchain) \<Rightarrow> world" where
  "upd w r f = w \<lparr> objs := (objs w)(r := f (objs w r)) \<rparr>"

text \<open>\<^verbatim>\<open>d.pop(k, None)\<close> and \<^verbatim>\<open>d[k] = v\<close> on a dictionary kept as an association list.\<close>

definition dict_pop :: "'k \<Rightarrow> ('k \<times> 'v) list \<Rightarrow> ('k \<times> 'v) list" where
  "dict_pop k d = filter (\<lambda>kv. fst kv \<noteq> k) d"

definition dict_set :: "'k \<Rightarrow> 'v \<Rightarrow> ('k \<times> 'v) list \<Rightarrow> ('k \<times> 'v) list" where
  "dict_set k v d =
     (if k \<in> fst ` set d then map (\<lambda>kv. if fst kv = k then (k, v) else kv) d else d @ [(k, v)])"

text \<open>
  File primitives. \<^verbatim>\<open>f.truncate()\<close> cuts or zero-extends the file to the position.
  \<^verbatim>\<open>f.write\<close> at a position behind the end of the file leaves a gap that reads as zeros;
  writing no bytes leaves the file as it is. \<^verbatim>\<open>f.read(n)\<close> from a position reads to the end
  for \<open>n = -1\<close> and raises ValueError for \<open>n < -1\<close>.
\<close>

definition file_truncate :: "bytes \<Rightarrow> nat \<Rightarrow> bytes" where
  "file_truncate c pos = take pos c @ replicate (pos - length c) 0"

definition file_write :: "bytes \<Rightarrow> nat \<Rightarrow> bytes \<Rightarrow> bytes" where
  "file_write c pos data =
     (if data = [] then c
      else take pos c @ replicate (pos - length c) 0 @ data @ drop (pos + length data) c)"

definition file_read :: "bytes \<Rightarrow> nat \<Rightarrow> int \<Rightarrow> error + bytes" where
  "file_read c pos n =
     (if n < - 1 then Inl ValueError
      else if n = - 1 then Inr (drop pos c)
      else Inr (take (nat n) (drop pos c)))"

definition path :: "world \<Rightarrow> nat \<Rightarrow> error + string" where
  "path w self =
     (let b = objs w self
      in if parent b = None then Inr ''blockchain_headers''
         else if \<not> forkpoint b > 0 then Inl AssertionError
         else (case prev_hash b of
                 None \<Rightarrow> Inl AttributeError
               | Some ph \<Rightarrow>
                   Inr (''forks/fork2_'' @ str_int (forkpoint b) @ ''_'' @ lstrip0 ph
                          @ ''_'' @ lstrip0 (forkpoint_hash b))))"

definition get_id :: "world \<Rightarrow> nat \<Rightarrow> string" where
  "get_id w self = forkpoint_hash (objs w self)"

definition assert_headers_file_available :: "world \<Rightarrow> string \<Rightarrow> error + unit" where
  "assert_headers_file_available w p = (if files w p \<noteq> None then Inr () else Inl FileNotFoundError)"

definition update_size :: "world \<Rightarrow> nat \<Rightarrow> error + world" where
  "update_size w self =
     (case path w self of
        Inl x \<Rightarrow> Inl x
      | Inr p \<Rightarrow>
          Inr (upd w self (\<lambda>b. b \<lparr> bc_size :=
                 (case files w p of None \<Rightarrow> 0 | Some c \<Rightarrow> int (length c div DISK_HEADER_SIZE)) \<rparr>)))"

definition height :: "world \<Rightarrow> nat \<Rightarrow> int" where
  "height w self = forkpoint (objs w self) + bc_size (objs w self) - 1"

text \<open>\<^verbatim>\<open>write(data, offset, truncate)\<close>; seeking to a negative offset raises.\<close>

text \<open>(\<open>write\<close> is a keyword of the prover, so the method is \<open>write_file\<close> here.)\<close>

definition write_file :: "world \<Rightarrow> nat \<Rightarrow> bytes \<Rightarrow> int \<Rightarrow> bool \<Rightarrow> error + world" where
  "write_file w self data offset truncate' =
     (case path w self of
        Inl x \<Rightarrow> Inl x
      | Inr filename \<Rightarrow>
          (case assert_headers_file_available w filename of
             Inl x \<Rightarrow> Inl x
           | Inr _ \<Rightarrow>
               if offset < 0 then Inl OSError
               else (let f = the (files w filename);
                         f1 = (if truncate' \<and> offset \<noteq> bc_size (objs w self) * int DISK_HEADER_SIZE
                               then file_truncate f (nat offset) else f);
                         f2 = file_write f1 (nat offset) data
                     in update_size (w \<lparr> files := (files w)(filename \<mapsto> f2) \<rparr>) self)))"

text \<open>
  \<^verbatim>\<open>read_header\<close> calls itself on the parent. The first argument is the number of
  further nested calls the interpreter's recursion limit leaves; past it Python raises
  RecursionError.
\<close>

fun read_header :: "nat \<Rightarrow> ext \<Rightarrow> world \<Rightarrow> nat \<Rightarrow> int \<Rightarrow> error + header option" where
  "read_header depth e w self height' =
     (if height' < 0 then Inr None
      else if height' < forkpoint (objs w self) then
        (case parent (objs w self) of
           None \<Rightarrow> Inl AttributeError
         | Some p \<Rightarrow> (case depth of 0 \<Rightarrow> Inl RecursionError
                                  | Suc d \<Rightarrow> read_header d e w p height'))
      else if height' > height w self then Inr None
      else (case path w self of
              Inl x \<Rightarrow> Inl x
            | Inr name \<Rightarrow>
               (case assert_headers_file_available w name of
                  Inl x \<Rightarrow> Inl x
                | Inr _ \<Rightarrow>
                   (let delta = nat (height' - forkpoint (objs w self))
                    in case file_read (the (files w name)) (delta * DISK_HEADER_SIZE)
                              (int DISK_HEADER_SIZE) of
                         Inl x \<Rightarrow> Inl x
                       | Inr h \<Rightarrow>
                           if length h < DISK_HEADER_SIZE
                           then Inl (Exception ''Expected to read a full header'')
                           else if h = replicate DISK_HEADER_SIZE 0 then Inr None
                           else (case deserialize_disk_header e h (Some height') of
                                   Inl x \<Rightarrow> Inl x
                                 | Inr hdr \<Rightarrow> Inr (Some hdr))))))"

declare read_header.simps [simp del]

definition is_height_checkpoint :: "net \<Rightarrow> int \<Rightarrow> bool" where
  "is_height_checkpoint n height' =
     (let within_cp_range = (height' \<le> max_checkpoint n);
          at_chunk_boundary = ((height' + 1) mod 2016 = 0)
      in within_cp_range \<and> at_chunk_boundary)"

definition get_hash :: "nat \<Rightarrow> ext \<Rightarrow> net \<Rightarrow> world \<Rightarrow> nat \<Rightarrow> int \<Rightarrow> error + string" where
  "get_hash depth e n w self height' =
     (if height' = - 1 then Inr ''0000000000000000000000000000000000000000000000000000000000000000''
      else if height' = 0 then Inr (GENESIS n)
      else if is_height_checkpoint n height' then
        (case py_index (CHECKPOINTS n) (height' div 2016) of
           Inl x \<Rightarrow> Inl x
         | Inr d \<Rightarrow> Inr (cp_hash d))
      else (case read_header depth e w self height' of
              Inl x \<Rightarrow> Inl x
            | Inr None \<Rightarrow> Inl (MissingHeader height')
            | Inr (Some header) \<Rightarrow>
                (case hash_header e (Some header) of Inl x \<Rightarrow> Inl x | Inr r \<Rightarrow> Inr (fst r))))"

definition get_chainwork :: "nat \<Rightarrow> ext \<Rightarrow> net \<Rightarrow> world \<Rightarrow> nat \<Rightarrow> int option \<Rightarrow> error + int" where
  "get_chainwork depth e n w self height_arg =
     (let height' = (case height_arg of None \<Rightarrow> max 0 (height w self) | Some h \<Rightarrow> h)
      in if height' = - 1 then Inr 0
         else (case read_header depth e w self height' of
                 Inl x \<Rightarrow> Inl x
               | Inr (Some header) \<Rightarrow>
                   (case chainwork header of None \<Rightarrow> Inl KeyError | Some cw \<Rightarrow> Inr cw)
               | Inr None \<Rightarrow>
                   if height' \<le> max_checkpoint n \<and> height' = (height' div 2016 + 1) * 2016 - 1
                   then (case py_index (CHECKPOINTS n) (height' div 2016) of
                           Inl x \<Rightarrow> Inl x
                         | Inr d \<Rightarrow> Inr (cp_chainwork d))
                   else Inl (MissingHeader height')))"

definition check_hash :: "nat \<Rightarrow> ext \<Rightarrow> net \<Rightarrow> world \<Rightarrow> nat \<Rightarrow> int \<Rightarrow> string \<Rightarrow> error + bool" where
  "check_hash depth e n w self height' header_hash =
     (if length header_hash \<noteq> 64 then Inl AssertionError
      else (case get_hash depth e n w self height' of
              Inl x \<Rightarrow> Inr False
            | Inr h \<Rightarrow> Inr (header_hash = h)))"

subsection \<open>Reorganisation\<close>

definition get_best_chain :: "net \<Rightarrow> world \<Rightarrow> error + nat" where
  "get_best_chain n w =
     (case map_of (blockchains w) (GENESIS n) of None \<Rightarrow> Inl KeyError | Some r \<Rightarrow> Inr r)"

definition get_direct_children :: "world \<Rightarrow> nat \<Rightarrow> nat list" where
  "get_direct_children w self = filter (\<lambda>y. parent (objs w y) = Some self) (map snd (blockchains w))"

text \<open>
  The part of \<^verbatim>\<open>_swap_with_parent\<close> behind its two early returns: the files are read,
  written across and renamed, the four attributes change hands and the registry is
  re-keyed. Each tuple assignment evaluates its right-hand side first.
\<close>

definition swap_with_parent_body :: "ext \<Rightarrow> world \<Rightarrow> nat \<Rightarrow> nat \<Rightarrow> error + world" where
  "swap_with_parent_body e w self parent' =
     (let parent_branch_size = height w parent' - forkpoint (objs w self) + 1;
          forkpoint' = forkpoint (objs w self);
          child_old_id = get_id w self;
          parent_old_id = get_id w parent'
      in case path w self of Inl x \<Rightarrow> Inl x | Inr child_old_name \<Rightarrow>
        (case assert_headers_file_available w child_old_name of Inl x \<Rightarrow> Inl x | Inr _ \<Rightarrow>
        (case path w parent' of Inl x \<Rightarrow> Inl x | Inr parent_name \<Rightarrow>
        (case assert_headers_file_available w parent_name of Inl x \<Rightarrow> Inl x | Inr _ \<Rightarrow>
          if \<not> forkpoint' > forkpoint (objs w parent') then Inl AssertionError
          else
           (let my_data = the (files w child_old_name);
                offset = (forkpoint' - forkpoint (objs w parent')) * int DISK_HEADER_SIZE
            in case file_read (the (files w parent_name)) (nat offset)
                      (parent_branch_size * int DISK_HEADER_SIZE) of
                 Inl x \<Rightarrow> Inl x | Inr parent_data \<Rightarrow>
              (case write_file w self parent_data 0 True of Inl x \<Rightarrow> Inl x | Inr w1 \<Rightarrow>
              (case write_file w1 parent' my_data offset True of Inl x \<Rightarrow> Inl x | Inr w2 \<Rightarrow>
              (case hash_raw_header e (bh2u (take PURE_HEADER_SIZE parent_data)) of
                 Inl x \<Rightarrow> Inl x
               | Inr new_hash \<Rightarrow>
                (let w3 = upd (upd w2 self (\<lambda>b. b \<lparr> parent := parent (objs w2 parent') \<rparr>))
                            parent' (\<lambda>b. b \<lparr> parent := Some self \<rparr>);
                     w4 = upd (upd w3 self (\<lambda>b. b \<lparr> forkpoint := forkpoint (objs w3 parent') \<rparr>))
                            parent' (\<lambda>b. b \<lparr> forkpoint := forkpoint (objs w3 self) \<rparr>);
                     w5 = upd (upd w4 self (\<lambda>b. b \<lparr> forkpoint_hash := forkpoint_hash (objs w4 parent') \<rparr>))
                            parent' (\<lambda>b. b \<lparr> forkpoint_hash := new_hash \<rparr>);
                     w6 = upd (upd w5 self (\<lambda>b. b \<lparr> prev_hash := prev_hash (objs w5 parent') \<rparr>))
                            parent' (\<lambda>b. b \<lparr> prev_hash := prev_hash (objs w5 self) \<rparr>)
                 in case path w6 parent' of Inl x \<Rightarrow> Inl x | Inr new_name \<Rightarrow>
                   (case files w6 child_old_name of None \<Rightarrow> Inl FileNotFoundError | Some moved \<Rightarrow>
                    (let w7 = w6 \<lparr> files := ((files w6)(child_old_name := None))(new_name \<mapsto> moved) \<rparr>
                     in case update_size w7 self of Inl x \<Rightarrow> Inl x | Inr w8 \<Rightarrow>
                       (case update_size w8 parent' of Inl x \<Rightarrow> Inl x | Inr w9 \<Rightarrow>
                          Inr (w9 \<lparr> blockchains :=
                                 dict_set (get_id w9 parent') parent'
                                   (dict_set (get_id w9 self) self
                                      (dict_pop parent_old_id
                                         (dict_pop child_old_id (blockchains w9)))) \<rparr>)))))))))))))"

text \<open>\<^verbatim>\<open>_swap_with_parent\<close> (an identifier cannot start with an underscore here).\<close>

definition swap_with_parent_once ::
  "nat \<Rightarrow> ext \<Rightarrow> net \<Rightarrow> world \<Rightarrow> nat \<Rightarrow> error + (bool \<times> world)" where
  "swap_with_parent_once depth e n w self =
     (case parent (objs w self) of
        None \<Rightarrow> Inr (False, w)
      | Some parent' \<Rightarrow>
         (case get_chainwork depth e n w parent' None of Inl x \<Rightarrow> Inl x | Inr parent_work \<Rightarrow>
         (case get_chainwork depth e n w self None of Inl x \<Rightarrow> Inl x | Inr self_work \<Rightarrow>
            if parent_work \<ge> self_work then Inr (False, w)
            else (case swap_with_parent_body e w self parent' of
                    Inl x \<Rightarrow> Inl x
                  | Inr w' \<Rightarrow> Inr (True, w')))))"

text \<open>The loop over the former siblings in \<^verbatim>\<open>swap_with_parent\<close>; \<^verbatim>\<open>check_hash\<close> asserts
  that its hash argument is a string, which \<^verbatim>\<open>None\<close> is not.\<close>

fun reparent_siblings ::
  "nat \<Rightarrow> ext \<Rightarrow> net \<Rightarrow> nat \<Rightarrow> nat list \<Rightarrow> world \<Rightarrow> error + world" where
  "reparent_siblings depth e n self [] w = Inr w"
| "reparent_siblings depth e n self (old_sibling # rest) w =
     (case prev_hash (objs w old_sibling) of
        None \<Rightarrow> Inl AssertionError
      | Some ph \<Rightarrow>
         (case check_hash depth e n w self (forkpoint (objs w old_sibling) - 1) ph of
            Inl x \<Rightarrow> Inl x
          | Inr ok \<Rightarrow>
              reparent_siblings depth e n self rest
                (if ok then upd w old_sibling (\<lambda>b. b \<lparr> parent := Some self \<rparr>) else w)))"

text \<open>
  The \<^verbatim>\<open>while True\<close> loop of \<^verbatim>\<open>swap_with_parent\<close>, with its counter. Nothing bounds the
  number of rounds for every state, so a run that does not end is the value \<open>None\<close>.
\<close>

partial_function (option) swap_with_parent_loop ::
  "nat \<Rightarrow> ext \<Rightarrow> net \<Rightarrow> nat \<Rightarrow> world \<Rightarrow> nat \<Rightarrow> (error + world) option" where
  "swap_with_parent_loop depth e n self w cnt =
     (case swap_with_parent_once depth e n w self of
        Inl x \<Rightarrow> Some (Inl x)
      | Inr r \<Rightarrow>
          if \<not> fst r then Some (Inr (snd r))
          else if cnt + 1 > length (blockchains (snd r))
          then Some (Inl (Exception ''swapping fork with parent too many times''))
          else (case parent (objs w self) of
                  None \<Rightarrow> Some (Inl AttributeError)
                | Some old_parent \<Rightarrow>
                   (case reparent_siblings depth e n self
                           (get_direct_children (snd r) old_parent) (snd r) of
                      Inl x \<Rightarrow> Some (Inl x)
                    | Inr w' \<Rightarrow> swap_with_parent_loop depth e n self w' (cnt + 1))))"

definition swap_with_parent :: "nat \<Rightarrow> ext \<Rightarrow> net \<Rightarrow> world \<Rightarrow> nat \<Rightarrow> (error + world) option" where
  "swap_with_parent depth e n w self = swap_with_parent_loop depth e n self w 0"

text \<open>
  \<^verbatim>\<open>save_chunk\<close>. The call on the best chain is a nested call, bounded by the recursion
  limit as in \<open>read_header\<close>.
\<close>

fun save_chunk ::
  "nat \<Rightarrow> ext \<Rightarrow> net \<Rightarrow> world \<Rightarrow> nat \<Rightarrow> int \<Rightarrow> bytes \<Rightarrow> (error + world) option" where
  "save_chunk depth e n w self index chunk =
     (if \<not> index \<ge> 0 then Some (Inl AssertionError)
      else
       (let chunk_within_checkpoint_region = (index < int (length (CHECKPOINTS n)))
        in if chunk_within_checkpoint_region \<and> parent (objs w self) \<noteq> None then
             (case get_best_chain n w of
                Inl x \<Rightarrow> Some (Inl x)
              | Inr main_chain \<Rightarrow>
                 (case depth of
                    0 \<Rightarrow> Some (Inl RecursionError)
                  | Suc d \<Rightarrow> save_chunk d e n w main_chain index chunk))
           else
             (let delta_height = index * 2016 - forkpoint (objs w self);
                  delta_bytes = delta_height * int DISK_HEADER_SIZE;
                  chunk' = (if delta_bytes < 0 then drop (nat (- delta_bytes)) chunk else chunk);
                  delta_bytes' = (if delta_bytes < 0 then 0 else delta_bytes);
                  truncate' = (\<not> chunk_within_checkpoint_region)
              in case write_file w self chunk' delta_bytes' truncate' of
                   Inl x \<Rightarrow> Some (Inl x)
                 | Inr w' \<Rightarrow> swap_with_parent depth e n w' self)))"

declare save_chunk.simps [simp del]

subsection \<open>Verification\<close>

text \<open>
  \<^verbatim>\<open>verify_header\<close>. \<^verbatim>\<open>expected_header_hash\<close> counts when it is neither \<^verbatim>\<open>None\<close> nor
  empty. The header is read after \<^verbatim>\<open>hash_header\<close> has filled in its \<^verbatim>\<open>prev_block_hash\<close>.
\<close>

definition verify_header ::
  "ext \<Rightarrow> net \<Rightarrow> header option \<Rightarrow> string \<Rightarrow> int \<Rightarrow> string option \<Rightarrow> bool \<Rightarrow> error + unit" where
  "verify_header e n header prev_hash' target expected_header_hash skip_auxpow =
     (case hash_header e header of
        Inl x \<Rightarrow> Inl x
      | Inr r \<Rightarrow>
         (let hash' = fst r
          in if expected_header_hash \<noteq> None \<and> expected_header_hash \<noteq> Some []
                \<and> expected_header_hash \<noteq> Some hash'
             then Inl (Exception ''hash mismatches with expected'')
             else (case snd r of
                     None \<Rightarrow> Inl AttributeError
                   | Some h \<Rightarrow>
                      if Some prev_hash' \<noteq> prev_block_hash h
                      then Inl (Exception ''prev hash mismatch'')
                      else if bits h \<noteq> 0
                      then Inl (Exception ''main header has non-zero bits'')
                      else if TESTNET n then Inr ()
                      else (case target_to_bits target of
                              Inl x \<Rightarrow> Inl x
                            | Inr bits' \<Rightarrow>
                               (case powdata h of
                                  None \<Rightarrow> Inl KeyError
                                | Some pd \<Rightarrow>
                                   if bits' \<noteq> pow_bits pd then Inl (Exception ''bits mismatch'')
                                   else (case block_height h of
                                           None \<Rightarrow> Inl TypeError
                                         | Some bh \<Rightarrow>
                                            (let skip_auxpow' =
                                                   (if bh \<le> max_checkpoint n then True else skip_auxpow)
                                             in if \<not> skip_auxpow'
                                                then (case pow_verify e pd hash' of
                                                        Inl x \<Rightarrow> Inl x
                                                      | Inr _ \<Rightarrow> Inr ())
                                                else Inr ())))))))"

text \<open>The loop of \<^verbatim>\<open>difficulty_data_for_block\<close>: \<open>h\<close> goes down until a return or a raise.\<close>

function difficulty_data_for_block ::
  "nat \<Rightarrow> ext \<Rightarrow> net \<Rightarrow> world \<Rightarrow> nat \<Rightarrow> int \<Rightarrow> int \<Rightarrow> (int \<Rightarrow> header option) \<Rightarrow> error + diffdata option" where
  "difficulty_data_for_block depth e n w self algo' h extra_blocks =
     (if h < 0 then Inr None
      else
       (case (case extra_blocks h of
                Some hdr \<Rightarrow> Inr (Some hdr)
              | None \<Rightarrow> read_header depth e w self h) of
          Inl x \<Rightarrow> Inl x
        | Inr (Some hdr) \<Rightarrow>
           (case powdata hdr of
              None \<Rightarrow> Inl KeyError
            | Some pd \<Rightarrow>
               if algo pd = algo'
               then Inr (Some \<lparr> dd_height = h, dd_timestamp = timestamp hdr, dd_bits = pow_bits pd \<rparr>)
               else difficulty_data_for_block depth e n w self algo' (h - 1) extra_blocks)
        | Inr None \<Rightarrow>
           if h > max_checkpoint n then Inl (MissingHeader h)
           else (case py_index (CHECKPOINTS n) (h div 2016) of
                   Inl x \<Rightarrow> Inl x
                 | Inr cp_data \<Rightarrow>
                    (case map_of (cp_algo_headers cp_data) (str_int algo') of
                       None \<Rightarrow> Inl KeyError
                     | Some algo_headers \<Rightarrow>
                        (case find (\<lambda>hdr. dd_height hdr \<le> h) (rev algo_headers) of
                           Some hdr \<Rightarrow> Inr (Some hdr)
                         | None \<Rightarrow> Inl (MissingHeader h))))))"
  by pat_completeness auto
termination
  by (relation "measure (\<lambda>(depth, e, n, w, self, algo', h, extra_blocks). nat (h + 1))") auto

declare difficulty_data_for_block.simps [simp del]

definition get_expected_target ::
  "nat \<Rightarrow> ext \<Rightarrow> net \<Rightarrow> world \<Rightarrow> nat \<Rightarrow> header \<Rightarrow> (int \<Rightarrow> header option) \<Rightarrow> error + int" where
  "get_expected_target depth e n w self header extra_blocks =
     (if TESTNET n then Inr 0
      else (case powdata header of
              None \<Rightarrow> Inl KeyError
            | Some pd \<Rightarrow>
                get_target e (\<lambda>algo' h. difficulty_data_for_block depth e n w self algo' h extra_blocks)
                  (algo pd) (block_height header)))"

text \<open>
  \<^verbatim>\<open>can_connect\<close>. The first \<^verbatim>\<open>try\<close> has a bare \<^verbatim>\<open>except\<close>, the second catches
  \<^verbatim>\<open>MissingHeader\<close> only, the third \<^verbatim>\<open>BaseException\<close>.
\<close>

definition can_connect ::
  "nat \<Rightarrow> ext \<Rightarrow> net \<Rightarrow> world \<Rightarrow> nat \<Rightarrow> header option \<Rightarrow> bool \<Rightarrow> bool \<Rightarrow> error + bool" where
  "can_connect depth e n w self header check_height skip_auxpow =
     (case header of
        None \<Rightarrow> Inr False
      | Some h \<Rightarrow>
         (case (if check_height
                then (case block_height h of
                        None \<Rightarrow> Inl TypeError
                      | Some ht \<Rightarrow> Inr (height w self \<noteq> ht - 1))
                else Inr False) of
            Inl x \<Rightarrow> Inl x
          | Inr height_mismatch \<Rightarrow>
             if height_mismatch then Inr False
             else if block_height h = Some 0 then
               (case hash_header e (Some h) of
                  Inl x \<Rightarrow> Inl x
                | Inr r \<Rightarrow> Inr (fst r = GENESIS n))
             else
               (case (case block_height h of
                        None \<Rightarrow> Inl TypeError
                      | Some ht \<Rightarrow> get_hash depth e n w self (ht - 1)) of
                  Inl x \<Rightarrow> Inr False
                | Inr prev_hash' \<Rightarrow>
                   if Some prev_hash' \<noteq> prev_block_hash h then Inr False
                   else (case get_expected_target depth e n w self h Map.empty of
                           Inl (MissingHeader x) \<Rightarrow> Inr False
                         | Inl x \<Rightarrow> Inl x
                         | Inr target \<Rightarrow>
                            (case verify_header e n (Some h) prev_hash' target None skip_auxpow of
                               Inl x \<Rightarrow> Inr False
                             | Inr _ \<Rightarrow> Inr True)))))"

subsection \<open>Example instances\<close>

text \<open>
  A small instance of the external collaborators, two network configurations and three
  states, on which the definitions run: a stand-in for the hash that returns the reversed
  input cut to 32 bytes, a base PowData form of five bytes (algorithm and bits) and a
  full form of one byte more. A record on disk is the 80 header bytes (the last of them
  given), the five PowData bytes and the chainwork in 32 bytes.
\<close>

definition example_ext :: ext where
  "example_ext =
     \<lparr> sha256d = (\<lambda>bs. take 32 (rev bs @ replicate 32 0)),
       int_to_hex = (\<lambda>i k. Inr (bh2u (map (\<lambda>j. of_int (i div 256 ^ j)) [0..<k]))),
       deserialize_base = (\<lambda>s p. if length s < p + 5 then Inl InvalidHeader
                                 else Inr (\<lparr> algo = uint (s ! p),
                                             pow_bits = from_bytes_little (slice s (p + 1) (p + 5)),
                                             pow_rest = [] \<rparr>, p + 5)),
       deserialize = (\<lambda>s p. if length s < p + 6 then Inl InvalidHeader
                            else Inr (\<lparr> algo = uint (s ! p),
                                        pow_bits = from_bytes_little (slice s (p + 1) (p + 5)),
                                        pow_rest = slice s (p + 5) (p + 6) \<rparr>, p + 6)),
       pow_verify = (\<lambda>pd h. Inr ()),
       get_target = (\<lambda>getter a h. Inr 0) \<rparr>"

definition example_genesis :: string where
  "example_genesis = ''00000000000000000000000000000000000000000000000000000000000000aa''"

definition example_net :: net where
  "example_net = \<lparr> GENESIS = example_genesis, TESTNET = False, CHECKPOINTS = [] \<rparr>"

definition example_net_cp :: net where
  "example_net_cp =
     \<lparr> GENESIS = example_genesis, TESTNET = False,
       CHECKPOINTS = [\<lparr> cp_hash = ''00000000000000000000000000000000000000000000000000000000000000c1'',
                        cp_chainwork = 4032, cp_algo_headers = [] \<rparr>] \<rparr>"

definition example_testnet :: net where
  "example_testnet = \<lparr> GENESIS = example_genesis, TESTNET = True, CHECKPOINTS = [] \<rparr>"

definition zero_header :: header where
  "zero_header =
     \<lparr> version = 0,
       prev_block_hash = Some ''0000000000000000000000000000000000000000000000000000000000000000'',
       merkle_root = ''0000000000000000000000000000000000000000000000000000000000000000'',
       timestamp = 0, bits = 0, nonce = 0, block_height = Some 0, powdata = None, chainwork = None \<rparr>"

definition genesis_header :: header where
  "genesis_header = zero_header \<lparr> nonce := 0xaa000000 \<rparr>"

definition example_record :: "8 word \<Rightarrow> 8 word \<Rightarrow> bytes" where
  "example_record k cw = replicate 79 0 @ [k] @ [1, 0, 0, 0, 0] @ replicate 31 0 @ [cw]"

definition best_chain :: "int \<Rightarrow> blockchain" where
  "best_chain sz = \<lparr> forkpoint = 0, parent = None, forkpoint_hash = example_genesis,
                     prev_hash = None, bc_size = sz \<rparr>"

definition example_world :: world where
  "example_world =
     \<lparr> objs = (\<lambda>r. best_chain 0),
       files = [''blockchain_headers'' \<mapsto> []],
       blockchains = [(example_genesis, 0)] \<rparr>"

definition small_file_world :: world where
  "small_file_world = example_world \<lparr> files := [''blockchain_headers'' \<mapsto> [9, 9, 9, 9, 9]] \<rparr>"

definition genesis_world :: world where
  "genesis_world =
     \<lparr> objs = (\<lambda>r. best_chain 1),
       files = [''blockchain_headers'' \<mapsto> example_record 0xaa 5],
       blockchains = [(example_genesis, 0)] \<rparr>"

definition fork_hash :: string where
  "fork_hash = ''00000000000000000000000000000000000000000000000000000000000000f1''"

definition fork_world :: world where
  "fork_world =
     \<lparr> objs = (\<lambda>r. if r = 1
                    then \<lparr> forkpoint = 1, parent = Some 0, forkpoint_hash = fork_hash,
                           prev_hash = Some example_genesis, bc_size = 1 \<rparr>
                    else best_chain 2),
       files = [''blockchain_headers'' \<mapsto> example_record 0xaa 5 @ example_record 0xb1 10,
                ''forks/fork2_1_aa_f1'' \<mapsto> example_record 0xf1 20],
       blockchains = [(example_genesis, 0), (fork_hash, 1)] \<rparr>"


section \<open>Properties\<close>

subsection \<open>Hashing of an absent header\<close>

lemma zeros64:
  "replicate 64 CHR ''0'' = ''0000000000000000000000000000000000000000000000000000000000000000''"
  by (simp add: eval_nat_numeral)

text \<open>
  C9. \<^verbatim>\<open>hash_header(None)\<close> does not raise: it returns the string of 64 characters
  \<^verbatim>\<open>'0'\<close>, and \<^verbatim>\<open>get_hash\<close> returns the same string for height \<open>-1\<close>, on every chain
  and in every state.
\<close>

theorem hash_header_None_is_zero_hash:
  "hash_header e None
     = Inr (''0000000000000000000000000000000000000000000000000000000000000000'', None) \<and>
   get_hash depth e n w self (- 1) = Inr (fst (projr (hash_header e None)))"
  by (simp add: hash_header_def get_hash_def zeros64)

theorem hash_header_None_is_zero_hash_witness:
  "get_hash 0 example_ext example_net example_world 0 (- 1)
     = Inr (fst (projr (hash_header example_ext None)))"
  using hash_header_None_is_zero_hash [of example_ext 0 example_net example_world 0] by simp

subsection \<open>Checking a hash\<close>

text \<open>
  C10. For every height and every string of 64 characters, \<^verbatim>\<open>check_hash\<close> returns a
  boolean and never raises: the result is \<open>True\<close> exactly when \<^verbatim>\<open>get_hash(height)\<close>
  returns that string, and \<open>False\<close> when \<^verbatim>\<open>get_hash\<close> returns another one or raises
  (\<^verbatim>\<open>MissingHeader\<close> included).
\<close>

theorem check_hash_total:
  "length header_hash = 64 \<Longrightarrow>
     check_hash depth e n w self height' header_hash
       = Inr (get_hash depth e n w self height' = Inr header_hash)"
  by (auto simp: check_hash_def split: sum.splits)

theorem check_hash_total_witness:
  "length ''0000000000000000000000000000000000000000000000000000000000000000'' = 64 \<and>
   get_hash 0 example_ext example_net example_world 0 1 = Inl (MissingHeader 1) \<and>
   check_hash 0 example_ext example_net example_world 0 1
     ''0000000000000000000000000000000000000000000000000000000000000000'' = Inr False"
proof -
  have len: "length ''0000000000000000000000000000000000000000000000000000000000000000'' = 64"
    by simp
  have ev: "get_hash 0 example_ext example_net example_world 0 1 = Inl (MissingHeader 1)"
    by code_simp
  show ?thesis
    using check_hash_total [OF len, of 0 example_ext example_net example_world 0 1] ev len
    by simp
qed

subsection \<open>Chainwork of an empty chain\<close>




subsection \<open>The PowData form of a full header\<close>

text \<open>
  C1 (as amended). \<^verbatim>\<open>deserialize_full_header(s, height, expect_trailing)\<close> parses the
  PowData part in base form precisely when a height is given, the height is at most
  \<^verbatim>\<open>max_checkpoint\<close>, and it is not the case that the height is 0 with no checkpoints
  configured; in every other case (the height 0 with no checkpoints and the height
  \<^verbatim>\<open>None\<close> among them) it parses the full form with AuxPoW. In the first case, once the
  pure header is parsed, the base parser runs at the byte behind it: what it raises is
  raised, and what it returns is the \<^verbatim>\<open>powdata\<close> of the header and the end position of the
  result (with the check that nothing is left over when no trailing data is expected);
  the full parser has no part in the result. In the second case the same holds with the
  two parsers exchanged. A pure header that does not parse raises in both.
\<close>

theorem deserialize_full_header_powdata_form:
  "(\<forall>x. deserialize_pure_header (slice s sp (sp + PURE_HEADER_SIZE)) height' = Inl x \<longrightarrow>
      deserialize_full_header e n s height' et sp = Inl x) \<and>
   (height' \<noteq> None \<and> \<not> (height' = Some 0 \<and> CHECKPOINTS n = []) \<and>
      the height' \<le> max_checkpoint n \<longrightarrow>
      deserialize_full_header e n s height' et sp
        = deserialize_full_header (e \<lparr> deserialize := deserialize_base e \<rparr>) n s height' et sp \<and>
      (\<forall>h. deserialize_pure_header (slice s sp (sp + PURE_HEADER_SIZE)) height' = Inr h \<longrightarrow>
         (\<forall>x. deserialize_base e s (sp + PURE_HEADER_SIZE) = Inl x \<longrightarrow>
            deserialize_full_header e n s height' et sp = Inl x) \<and>
         (\<forall>pd endp. deserialize_base e s (sp + PURE_HEADER_SIZE) = Inr (pd, endp) \<longrightarrow>
            deserialize_full_header e n s height' et sp
              = (if et then Inr (h \<lparr> powdata := Some pd \<rparr>, Some endp)
                 else if endp = length s then Inr (h \<lparr> powdata := Some pd \<rparr>, None)
                 else Inl (Exception ''Invalid header length''))))) \<and>
   (\<not> (height' \<noteq> None \<and> \<not> (height' = Some 0 \<and> CHECKPOINTS n = []) \<and>
         the height' \<le> max_checkpoint n) \<longrightarrow>
      deserialize_full_header e n s height' et sp
        = deserialize_full_header (e \<lparr> deserialize_base := deserialize e \<rparr>) n s height' et sp \<and>
      (\<forall>h. deserialize_pure_header (slice s sp (sp + PURE_HEADER_SIZE)) height' = Inr h \<longrightarrow>
         (\<forall>x. deserialize e s (sp + PURE_HEADER_SIZE) = Inl x \<longrightarrow>
            deserialize_full_header e n s height' et sp = Inl x) \<and>
         (\<forall>pd endp. deserialize e s (sp + PURE_HEADER_SIZE) = Inr (pd, endp) \<longrightarrow>
            deserialize_full_header e n s height' et sp
              = (if et then Inr (h \<lparr> powdata := Some pd \<rparr>, Some endp)
                 else if endp = length s then Inr (h \<lparr> powdata := Some pd \<rparr>, None)
                 else Inl (Exception ''Invalid header length'')))))"
  by (auto simp: deserialize_full_header_def Let_def split: sum.splits)

theorem deserialize_full_header_powdata_form_witness:
  "the (Some 5) \<le> max_checkpoint example_net_cp \<and>
   deserialize_base example_ext (replicate 85 0) (0 + PURE_HEADER_SIZE)
     = Inr (\<lparr> algo = 0, pow_bits = 0, pow_rest = [] \<rparr>, 85) \<and>
   deserialize_full_header example_ext example_net_cp (replicate 85 0) (Some 5) False 0
     = Inr (zero_header \<lparr> block_height := Some 5,
              powdata := Some \<lparr> algo = 0, pow_bits = 0, pow_rest = [] \<rparr> \<rparr>, None) \<and>
   deserialize example_ext (replicate 85 0) (0 + PURE_HEADER_SIZE) = Inl InvalidHeader \<and>
   deserialize_full_header example_ext example_net (replicate 85 0) None False 0
     = Inl InvalidHeader \<and>
   deserialize example_ext (replicate 86 0) (0 + PURE_HEADER_SIZE)
     = Inr (\<lparr> algo = 0, pow_bits = 0, pow_rest = [0] \<rparr>, 86) \<and>
   deserialize_full_header example_ext example_net (replicate 86 0) (Some 0) True 0
     = Inr (zero_header \<lparr> powdata := Some \<lparr> algo = 0, pow_bits = 0, pow_rest = [0] \<rparr> \<rparr>, Some 86) \<and>
   deserialize_full_header example_ext example_net_cp [] (Some 5) False 0 = Inl InvalidHeader"
proof -
  have a: "the (Some 5) \<le> max_checkpoint example_net_cp"
    by (simp add: max_checkpoint_def example_net_cp_def)
  have b: "CHECKPOINTS example_net = []"
    by (simp add: example_net_def)
  have p5: "deserialize_pure_header (slice (replicate 85 0) 0 (0 + PURE_HEADER_SIZE)) (Some 5)
              = Inr (zero_header \<lparr> block_height := Some 5 \<rparr>)"
    by code_simp
  have b5: "deserialize_base example_ext (replicate 85 0) (0 + PURE_HEADER_SIZE)
              = Inr (\<lparr> algo = 0, pow_bits = 0, pow_rest = [] \<rparr>, 85)"
    by code_simp
  have c5: "Some (5 :: int) \<noteq> None \<and> \<not> (Some (5 :: int) = Some 0 \<and> CHECKPOINTS example_net_cp = []) \<and>
            the (Some 5) \<le> max_checkpoint example_net_cp"
    using a by simp
  have "deserialize_full_header example_ext example_net_cp (replicate 85 0) (Some 5) False 0
     = (if False
        then Inr (zero_header \<lparr> block_height := Some 5 \<rparr>
                    \<lparr> powdata := Some \<lparr> algo = 0, pow_bits = 0, pow_rest = [] \<rparr> \<rparr>, Some 85)
        else if 85 = length (replicate 85 (0 :: 8 word))
        then Inr (zero_header \<lparr> block_height := Some 5 \<rparr>
                    \<lparr> powdata := Some \<lparr> algo = 0, pow_bits = 0, pow_rest = [] \<rparr> \<rparr>, None)
        else Inl (Exception ''Invalid header length''))"
    using c5 p5 b5
      deserialize_full_header_powdata_form
        [where height' = "Some 5" and n = example_net_cp and e = example_ext
           and s = "replicate 85 0" and et = False and sp = 0]
    by blast
  then have r5: "deserialize_full_header example_ext example_net_cp (replicate 85 0) (Some 5) False 0
     = Inr (zero_header \<lparr> block_height := Some 5,
              powdata := Some \<lparr> algo = 0, pow_bits = 0, pow_rest = [] \<rparr> \<rparr>, None)"
    by simp
  have pn: "deserialize_pure_header (slice (replicate 85 0) 0 (0 + PURE_HEADER_SIZE)) None
              = Inr (zero_header \<lparr> block_height := None \<rparr>)"
    by code_simp
  have fn: "deserialize example_ext (replicate 85 0) (0 + PURE_HEADER_SIZE) = Inl InvalidHeader"
    by code_simp
  have rn: "deserialize_full_header example_ext example_net (replicate 85 0) None False 0
     = Inl InvalidHeader"
    using pn fn
      deserialize_full_header_powdata_form
        [where height' = None and n = example_net and e = example_ext
           and s = "replicate 85 0" and et = False and sp = 0]
    by blast
  have p0: "deserialize_pure_header (slice (replicate 86 0) 0 (0 + PURE_HEADER_SIZE)) (Some 0)
              = Inr zero_header"
    by code_simp
  have f0: "deserialize example_ext (replicate 86 0) (0 + PURE_HEADER_SIZE)
              = Inr (\<lparr> algo = 0, pow_bits = 0, pow_rest = [0] \<rparr>, 86)"
    by code_simp
  have "deserialize_full_header example_ext example_net (replicate 86 0) (Some 0) True 0
     = (if True
        then Inr (zero_header \<lparr> powdata := Some \<lparr> algo = 0, pow_bits = 0, pow_rest = [0] \<rparr> \<rparr>, Some 86)
        else if 86 = length (replicate 86 (0 :: 8 word))
        then Inr (zero_header \<lparr> powdata := Some \<lparr> algo = 0, pow_bits = 0, pow_rest = [0] \<rparr> \<rparr>, None)
        else Inl (Exception ''Invalid header length''))"
    using b p0 f0
      deserialize_full_header_powdata_form
        [where height' = "Some 0" and n = example_net and e = example_ext
           and s = "replicate 86 0" and et = True and sp = 0]
    by blast
  then have r0: "deserialize_full_header example_ext example_net (replicate 86 0) (Some 0) True 0
     = Inr (zero_header \<lparr> powdata := Some \<lparr> algo = 0, pow_bits = 0, pow_rest = [0] \<rparr> \<rparr>, Some 86)"
    by simp
  have pe: "deserialize_pure_header (slice [] 0 (0 + PURE_HEADER_SIZE)) (Some 5) = Inl InvalidHeader"
    by code_simp
  have re: "deserialize_full_header example_ext example_net_cp [] (Some 5) False 0 = Inl InvalidHeader"
    using pe
      deserialize_full_header_powdata_form
        [where height' = "Some 5" and n = example_net_cp and e = example_ext
           and s = "[]" and et = False and sp = 0]
    by blast
  show ?thesis using a b5 r5 fn rn f0 r0 re by simp
qed

text \<open>
  The claim as it was stated (base form at height 0 with no checkpoints) fails: for the
  genesis height with no checkpoints and 86 bytes, the header comes back with the
  PowData of the full parser, which took all six bytes behind the pure header; the base
  parser takes five and would leave one byte over.
\<close>

theorem deserialize_full_header_genesis_full_form:
  "CHECKPOINTS example_net = [] \<and>
   deserialize_full_header example_ext example_net (replicate 85 0 @ [0xAA]) (Some 0) False 0
     = Inr (zero_header \<lparr> powdata := Some \<lparr> algo = 0, pow_bits = 0, pow_rest = [0xAA] \<rparr> \<rparr>, None) \<and>
   deserialize example_ext (replicate 85 0 @ [0xAA]) 80
     = Inr (\<lparr> algo = 0, pow_bits = 0, pow_rest = [0xAA] \<rparr>, 86) \<and>
   deserialize_base example_ext (replicate 85 0 @ [0xAA]) 80
     = Inr (\<lparr> algo = 0, pow_bits = 0, pow_rest = [] \<rparr>, 85)"
  by code_simp

subsection \<open>The hash at a height\<close>

lemma checkpoint_index_in_range:
  assumes "1 \<le> h" and "h \<le> max_checkpoint n"
  shows "nat (h div 2016) < length (CHECKPOINTS n)"
    and "py_index (CHECKPOINTS n) (h div 2016) = Inr (CHECKPOINTS n ! nat (h div 2016))"
proof -
  have "h < int (length (CHECKPOINTS n)) * 2016" using assms by (simp add: max_checkpoint_def)
  then have lt: "h div 2016 < int (length (CHECKPOINTS n))"
    by (simp add: div_less_iff_less_mult)
  moreover have ge: "0 \<le> h div 2016" using assms by simp
  ultimately show "nat (h div 2016) < length (CHECKPOINTS n)" by linarith
  show "py_index (CHECKPOINTS n) (h div 2016) = Inr (CHECKPOINTS n ! nat (h div 2016))"
    using lt ge by (simp add: py_index_def)
qed

text \<open>
  C4. \<^verbatim>\<open>get_hash(h)\<close> returns 64 characters \<^verbatim>\<open>'0'\<close> for \<open>h = -1\<close> and the genesis
  constant for \<open>h = 0\<close>. For another \<open>h\<close> with \<open>h \<le> max_checkpoint\<close> and
  \<open>(h + 1) mod 2016 = 0\<close> it returns the stored hash of \<^verbatim>\<open>checkpoints[h // 2016]\<close>, the
  same in every state and on every chain (no file is read); for \<open>h \<ge> 1\<close> that entry
  exists. Otherwise the result follows \<^verbatim>\<open>read_header(h)\<close>: \<^verbatim>\<open>MissingHeader(h)\<close> when it
  is absent, the hash of the header when it is there, and the exception of \<^verbatim>\<open>read_header\<close>
  when it raises.
\<close>

theorem get_hash_cases:
  "get_hash depth e n w self (- 1)
     = Inr ''0000000000000000000000000000000000000000000000000000000000000000'' \<and>
   get_hash depth e n w self 0 = Inr (GENESIS n) \<and>
   (h \<noteq> - 1 \<and> h \<noteq> 0 \<and> h \<le> max_checkpoint n \<and> (h + 1) mod 2016 = 0 \<longrightarrow>
      get_hash depth e n w self h
        = (case py_index (CHECKPOINTS n) (h div 2016) of Inl x \<Rightarrow> Inl x | Inr d \<Rightarrow> Inr (cp_hash d)) \<and>
      (\<forall>depth' e' w' self'. get_hash depth e n w self h = get_hash depth' e' n w' self' h) \<and>
      (1 \<le> h \<longrightarrow> nat (h div 2016) < length (CHECKPOINTS n) \<and>
         get_hash depth e n w self h = Inr (cp_hash (CHECKPOINTS n ! nat (h div 2016))))) \<and>
   (h \<noteq> - 1 \<and> h \<noteq> 0 \<and> \<not> (h \<le> max_checkpoint n \<and> (h + 1) mod 2016 = 0) \<longrightarrow>
      (read_header depth e w self h = Inr None \<longrightarrow>
         get_hash depth e n w self h = Inl (MissingHeader h)) \<and>
      (\<forall>hdr. read_header depth e w self h = Inr (Some hdr) \<longrightarrow>
         get_hash depth e n w self h
           = (case hash_header e (Some hdr) of Inl x \<Rightarrow> Inl x | Inr r \<Rightarrow> Inr (fst r))) \<and>
      (\<forall>x. read_header depth e w self h = Inl x \<longrightarrow> get_hash depth e n w self h = Inl x))"
  by (auto simp: get_hash_def is_height_checkpoint_def checkpoint_index_in_range)

theorem get_hash_cases_witness:
  "(2015 :: int) \<le> max_checkpoint example_net_cp \<and> ((2015 :: int) + 1) mod 2016 = 0 \<and>
   get_hash 0 example_ext example_net_cp example_world 0 2015
     = Inr ''00000000000000000000000000000000000000000000000000000000000000c1'' \<and>
   read_header 0 example_ext fork_world 1 2 = Inr None \<and>
   get_hash 0 example_ext example_net fork_world 1 2 = Inl (MissingHeader 2)"
proof -
  have a: "(2015 :: int) \<noteq> - 1 \<and> (2015 :: int) \<noteq> 0 \<and> 2015 \<le> max_checkpoint example_net_cp \<and>
           ((2015 :: int) + 1) mod 2016 = 0"
    by (simp add: max_checkpoint_def example_net_cp_def)
  have b: "(1 :: int) \<le> 2015" by simp
  have c: "cp_hash (CHECKPOINTS example_net_cp ! nat (2015 div 2016))
             = ''00000000000000000000000000000000000000000000000000000000000000c1''"
    by (simp add: example_net_cp_def)
  have g1: "get_hash 0 example_ext example_net_cp example_world 0 2015
              = Inr (cp_hash (CHECKPOINTS example_net_cp ! nat (2015 div 2016)))"
    using get_hash_cases [of 0 example_ext example_net_cp example_world 0 2015] a b by blast
  have r2: "read_header 0 example_ext fork_world 1 2 = Inr None"
    by code_simp
  have m: "(2 :: int) \<noteq> - 1 \<and> (2 :: int) \<noteq> 0 \<and>
           \<not> ((2 :: int) \<le> max_checkpoint example_net \<and> ((2 :: int) + 1) mod 2016 = 0)"
    by simp
  have g2: "get_hash 0 example_ext example_net fork_world 1 2 = Inl (MissingHeader 2)"
    using get_hash_cases [of 0 example_ext example_net fork_world 1 2] m r2 by blast
  show ?thesis using a g1 c r2 g2 by simp
qed

subsection \<open>Verification of a header\<close>

lemma hash_header_Some:
  "hash_header e (Some h) = Inr r \<Longrightarrow>
     \<exists>h'. snd r = Some h' \<and> bits h' = bits h \<and> prev_block_hash h' \<noteq> None \<and>
          (prev_block_hash h \<noteq> None \<longrightarrow> h' = h)"
  by (auto simp: hash_header_def Let_def split: sum.splits if_splits)

lemma serialize_pure_header_pow_verify:
  "serialize_pure_header (e \<lparr> pow_verify := v \<rparr>) h = serialize_pure_header e h"
  by (simp add: serialize_pure_header_def cong: sum.case_cong option.case_cong)

lemma hash_raw_header_pow_verify:
  "hash_raw_header (e \<lparr> pow_verify := v \<rparr>) s = hash_raw_header e s"
  by (simp add: hash_raw_header_def cong: sum.case_cong)

lemma hash_header_pow_verify:
  "hash_header (e \<lparr> pow_verify := v \<rparr>) ho = hash_header e ho"
  by (simp add: hash_header_def serialize_pure_header_pow_verify hash_raw_header_pow_verify cong: sum.case_cong option.case_cong)

lemma verify_header_testnet:
  "TESTNET n \<Longrightarrow>
     verify_header e n ho ph target expected skip =
       (case hash_header e ho of
          Inl x \<Rightarrow> Inl x
        | Inr r \<Rightarrow>
           if expected \<noteq> None \<and> expected \<noteq> Some [] \<and> expected \<noteq> Some (fst r)
           then Inl (Exception ''hash mismatches with expected'')
           else (case snd r of
                   None \<Rightarrow> Inl AttributeError
                 | Some h \<Rightarrow>
                     if Some ph \<noteq> prev_block_hash h then Inl (Exception ''prev hash mismatch'')
                     else if bits h \<noteq> 0 then Inl (Exception ''main header has non-zero bits'')
                     else Inr ()))"
  by (simp add: verify_header_def Let_def split: sum.splits option.splits)

text \<open>
  C6. \<^verbatim>\<open>verify_header\<close> raises on every header whose pure-header \<^verbatim>\<open>bits\<close> field is not
  zero. The check is the third: a hash that differs from the expected one raises the hash
  error, then a different previous hash raises the prev-hash error, then non-zero bits
  raise "main header has non-zero bits". On testnet the function returns right after that
  check: its result does not depend on the target, on \<^verbatim>\<open>skip_auxpow\<close> or on the AuxPoW
  verification, and a header that passes the three checks is accepted.
\<close>

theorem verify_header_nonzero_bits:
  "(bits h \<noteq> 0 \<longrightarrow> (\<exists>x. verify_header e n (Some h) ph target expected skip = Inl x)) \<and>
   (\<forall>hh h'. bits h \<noteq> 0 \<and> hash_header e (Some h) = Inr (hh, Some h') \<and>
       (expected = None \<or> expected = Some [] \<or> expected = Some hh) \<and>
       prev_block_hash h' = Some ph \<longrightarrow>
       verify_header e n (Some h) ph target expected skip
         = Inl (Exception ''main header has non-zero bits'')) \<and>
   (\<forall>hh h'. hash_header e (Some h) = Inr (hh, Some h') \<and>
       expected \<noteq> None \<and> expected \<noteq> Some [] \<and> expected \<noteq> Some hh \<longrightarrow>
       verify_header e n (Some h) ph target expected skip
         = Inl (Exception ''hash mismatches with expected'')) \<and>
   (\<forall>hh h'. hash_header e (Some h) = Inr (hh, Some h') \<and>
       (expected = None \<or> expected = Some [] \<or> expected = Some hh) \<and>
       prev_block_hash h' \<noteq> Some ph \<longrightarrow>
       verify_header e n (Some h) ph target expected skip
         = Inl (Exception ''prev hash mismatch'')) \<and>
   (TESTNET n \<longrightarrow>
      (\<forall>target' skip' v.
         verify_header e n (Some h) ph target expected skip
           = verify_header (e \<lparr> pow_verify := v \<rparr>) n (Some h) ph target' expected skip') \<and>
      (\<forall>hh h'. bits h = 0 \<and> hash_header e (Some h) = Inr (hh, Some h') \<and>
         (expected = None \<or> expected = Some [] \<or> expected = Some hh) \<and>
         prev_block_hash h' = Some ph \<longrightarrow>
         verify_header e n (Some h) ph target expected skip = Inr ()))"
proof (intro conjI impI allI)
  assume "bits h \<noteq> 0"
  then show "\<exists>x. verify_header e n (Some h) ph target expected skip = Inl x"
    by (auto simp: verify_header_def Let_def split: sum.splits option.splits dest!: hash_header_Some)
next
  fix hh h'
  assume "bits h \<noteq> 0 \<and> hash_header e (Some h) = Inr (hh, Some h') \<and>
       (expected = None \<or> expected = Some [] \<or> expected = Some hh) \<and>
       prev_block_hash h' = Some ph"
  then show "verify_header e n (Some h) ph target expected skip
         = Inl (Exception ''main header has non-zero bits'')"
    by (auto simp: verify_header_def Let_def dest!: hash_header_Some)
next
  fix hh h'
  assume "hash_header e (Some h) = Inr (hh, Some h') \<and>
       expected \<noteq> None \<and> expected \<noteq> Some [] \<and> expected \<noteq> Some hh"
  then show "verify_header e n (Some h) ph target expected skip
         = Inl (Exception ''hash mismatches with expected'')"
    by (auto simp: verify_header_def Let_def)
next
  fix hh h'
  assume "hash_header e (Some h) = Inr (hh, Some h') \<and>
       (expected = None \<or> expected = Some [] \<or> expected = Some hh) \<and>
       prev_block_hash h' \<noteq> Some ph"
  then show "verify_header e n (Some h) ph target expected skip
         = Inl (Exception ''prev hash mismatch'')"
    by (auto simp: verify_header_def Let_def)
next
  fix target' skip' v
  assume "TESTNET n"
  then show "verify_header e n (Some h) ph target expected skip
           = verify_header (e \<lparr> pow_verify := v \<rparr>) n (Some h) ph target' expected skip'"
    by (simp add: verify_header_testnet hash_header_pow_verify)
next
  fix hh h'
  assume "TESTNET n" "bits h = 0 \<and> hash_header e (Some h) = Inr (hh, Some h') \<and>
         (expected = None \<or> expected = Some [] \<or> expected = Some hh) \<and>
         prev_block_hash h' = Some ph"
  then show "verify_header e n (Some h) ph target expected skip = Inr ()"
    by (auto simp: verify_header_def Let_def dest!: hash_header_Some)
qed


theorem verify_header_nonzero_bits_witness:
  "bits (genesis_header \<lparr> bits := 0x1d00ffff \<rparr>) \<noteq> 0 \<and>
   verify_header example_ext example_net (Some (genesis_header \<lparr> bits := 0x1d00ffff \<rparr>))
      ''0000000000000000000000000000000000000000000000000000000000000000'' 0 None False
     = Inl (Exception ''main header has non-zero bits'') \<and>
   TESTNET example_testnet \<and>
   verify_header example_ext example_testnet (Some genesis_header)
      ''0000000000000000000000000000000000000000000000000000000000000000'' 12345 None False
     = Inr ()"
proof -
  have a: "bits (genesis_header \<lparr> bits := 0x1d00ffff \<rparr>) \<noteq> 0"
    by (simp add: genesis_header_def zero_header_def)
  have b: "hash_header example_ext (Some (genesis_header \<lparr> bits := 0x1d00ffff \<rparr>))
             = Inr (''000000000000000000000000000000000000000000000000ffff001d000000aa'',
                    Some (genesis_header \<lparr> bits := 0x1d00ffff \<rparr>))"
    by code_simp
  have c: "prev_block_hash (genesis_header \<lparr> bits := 0x1d00ffff \<rparr>)
             = Some ''0000000000000000000000000000000000000000000000000000000000000000''"
    by (simp add: genesis_header_def zero_header_def)
  have t: "TESTNET example_testnet" by (simp add: example_testnet_def)
  have d: "bits genesis_header = 0" by (simp add: genesis_header_def zero_header_def)
  have e: "hash_header example_ext (Some genesis_header) = Inr (example_genesis, Some genesis_header)"
    by code_simp
  have f: "prev_block_hash genesis_header
             = Some ''0000000000000000000000000000000000000000000000000000000000000000''"
    by (simp add: genesis_header_def zero_header_def)
  note T1 = verify_header_nonzero_bits
      [of "genesis_header \<lparr> bits := 0x1d00ffff \<rparr>" example_ext example_net
          "''0000000000000000000000000000000000000000000000000000000000000000''" 0 None False]
  note T2 = verify_header_nonzero_bits
      [of genesis_header example_ext example_testnet
          "''0000000000000000000000000000000000000000000000000000000000000000''" 12345 None False]
  have r1: "verify_header example_ext example_net (Some (genesis_header \<lparr> bits := 0x1d00ffff \<rparr>))
      ''0000000000000000000000000000000000000000000000000000000000000000'' 0 None False
     = Inl (Exception ''main header has non-zero bits'')"
    using T1 a b c by blast
  have r2: "verify_header example_ext example_testnet (Some genesis_header)
      ''0000000000000000000000000000000000000000000000000000000000000000'' 12345 None False
     = Inr ()"
    using T2 t d e f by blast
  show ?thesis using a t r1 r2 by simp
qed

subsection \<open>Connecting a header\<close>

lemma can_connect_raise_cases:
  "can_connect depth e n w self header check_height skip = Inl x \<longleftrightarrow>
      (\<exists>h. header = Some h \<and>
         ((check_height \<and> block_height h = None \<and> x = TypeError) \<or>
          (block_height h = Some 0 \<and> (check_height \<longrightarrow> height w self = - 1) \<and>
             hash_header e (Some h) = Inl x) \<or>
          (\<exists>ht ph. block_height h = Some ht \<and> ht \<noteq> 0 \<and>
             (check_height \<longrightarrow> height w self = ht - 1) \<and>
             get_hash depth e n w self (ht - 1) = Inr ph \<and> prev_block_hash h = Some ph \<and>
             get_expected_target depth e n w self h Map.empty = Inl x \<and>
             (\<forall>m. x \<noteq> MissingHeader m))))"
proof (cases header)
  case None
  then show ?thesis by (simp add: can_connect_def)
next
  case (Some h)
  show ?thesis
  proof (cases "block_height h")
    case None
    then show ?thesis using Some
      by (cases check_height) (auto simp: can_connect_def)
  next
    case bh: (Some ht)
    show ?thesis
    proof (cases "check_height \<and> height w self \<noteq> ht - 1")
      case True
      then show ?thesis using Some bh by (auto simp: can_connect_def)
    next
      case False
      then have ok: "check_height \<longrightarrow> height w self = ht - 1" by blast
      show ?thesis
      proof (cases "ht = 0")
        case True
        then show ?thesis using Some bh ok
          by (auto simp: can_connect_def split: sum.splits)
      next
        case nz: False
        show ?thesis
        proof (cases "get_hash depth e n w self (ht - 1)")
          case (Inl y)
          then show ?thesis using Some bh ok nz by (auto simp: can_connect_def)
        next
          case (Inr ph)
          show ?thesis
          proof (cases "prev_block_hash h = Some ph")
            case False
            then show ?thesis using Some bh ok nz Inr by (auto simp: can_connect_def)
          next
            case True
            show ?thesis
            proof (cases "get_expected_target depth e n w self h Map.empty")
              case t: (Inr t)
              then show ?thesis using Some bh ok nz Inr True
                by (auto simp: can_connect_def split: sum.splits)
            next
              case (Inl y)
              then show ?thesis using Some bh ok nz Inr True
                by (cases y) (auto simp: can_connect_def)
            qed
          qed
        qed
      qed
    qed
  qed
qed

lemma can_connect_True_cases:
  "can_connect depth e n w self header check_height skip = Inr True \<longleftrightarrow>
      (\<exists>h ht. header = Some h \<and> block_height h = Some ht \<and>
         (check_height \<longrightarrow> height w self = ht - 1) \<and>
         (if ht = 0 then (\<exists>r. hash_header e (Some h) = Inr r \<and> fst r = GENESIS n)
          else (\<exists>ph t. get_hash depth e n w self (ht - 1) = Inr ph \<and>
                  prev_block_hash h = Some ph \<and>
                  get_expected_target depth e n w self h Map.empty = Inr t \<and>
                  verify_header e n (Some h) ph t None skip = Inr ())))"
  by (auto simp: can_connect_def split: option.splits sum.splits if_splits error.splits)

lemma get_expected_target_no_powdata:
  "\<forall>h. header = Some h \<and> powdata h = None \<and> \<not> TESTNET n \<longrightarrow>
      get_expected_target depth e n w self h Map.empty = Inl KeyError"
  by (simp add: get_expected_target_def)

lemma can_connect_no_header:
  "header = None \<longrightarrow> can_connect depth e n w self header check_height skip = Inr False"
  by (simp add: can_connect_def)

lemma can_connect_no_height:
  "\<forall>h. header = Some h \<and> block_height h = None \<and> \<not> check_height \<longrightarrow>
      can_connect depth e n w self header check_height skip = Inr False"
  by (auto simp: can_connect_def)

lemma can_connect_False_cases:
  "\<forall>h ht. header = Some h \<and> block_height h = Some ht \<longrightarrow>
      (check_height \<and> height w self \<noteq> ht - 1 \<longrightarrow>
         can_connect depth e n w self header check_height skip = Inr False) \<and>
      ((check_height \<longrightarrow> height w self = ht - 1) \<and> ht \<noteq> 0 \<longrightarrow>
         ((\<exists>x. get_hash depth e n w self (ht - 1) = Inl x) \<longrightarrow>
            can_connect depth e n w self header check_height skip = Inr False) \<and>
         (\<forall>ph. get_hash depth e n w self (ht - 1) = Inr ph \<longrightarrow>
            (prev_block_hash h \<noteq> Some ph \<longrightarrow>
               can_connect depth e n w self header check_height skip = Inr False) \<and>
            (prev_block_hash h = Some ph \<longrightarrow>
               ((\<exists>m. get_expected_target depth e n w self h Map.empty = Inl (MissingHeader m)) \<longrightarrow>
                  can_connect depth e n w self header check_height skip = Inr False) \<and>
               (\<forall>t x. get_expected_target depth e n w self h Map.empty = Inr t \<and>
                  verify_header e n (Some h) ph t None skip = Inl x \<longrightarrow>
                  can_connect depth e n w self header check_height skip = Inr False))))"
  by (auto simp: can_connect_def split: option.splits sum.splits if_splits error.splits)

text \<open>
  C5 (as amended). \<^verbatim>\<open>can_connect(header, check_height, skip_auxpow)\<close> returns \<open>True\<close>
  exactly when all its checks pass: the height is \<^verbatim>\<open>self.height() + 1\<close> if \<^verbatim>\<open>check_height\<close>
  is set, and either the height is 0 and the hash is the genesis hash, or
  \<^verbatim>\<open>get_hash(height - 1)\<close> returns the header's previous hash, the expected target is
  computed and \<^verbatim>\<open>verify_header\<close> passes. It returns \<open>False\<close> for no header, for a height
  mismatch, for every failure of \<^verbatim>\<open>get_hash(height - 1)\<close>, for a different previous hash,
  for a \<^verbatim>\<open>MissingHeader\<close> raised while the expected target is computed and for every
  failure of \<^verbatim>\<open>verify_header\<close>. It is not free of exceptions: it raises exactly in three
  cases. A header without a height raises TypeError when \<^verbatim>\<open>check_height\<close> is set (without
  it the call returns \<open>False\<close>); at height 0, past the height check, a failure to hash the
  header is raised; and at another height, past the height check and with the previous
  hash found and equal, every exception of the expected-target computation other than
  \<^verbatim>\<open>MissingHeader\<close> is raised (only \<^verbatim>\<open>MissingHeader\<close> is caught there), among them the
  KeyError of a header without \<^verbatim>\<open>powdata\<close> off testnet.
\<close>

theorem can_connect_outcomes:
  "(can_connect depth e n w self header check_height skip = Inr True \<longleftrightarrow>
      (\<exists>h ht. header = Some h \<and> block_height h = Some ht \<and>
         (check_height \<longrightarrow> height w self = ht - 1) \<and>
         (if ht = 0 then (\<exists>r. hash_header e (Some h) = Inr r \<and> fst r = GENESIS n)
          else (\<exists>ph t. get_hash depth e n w self (ht - 1) = Inr ph \<and>
                  prev_block_hash h = Some ph \<and>
                  get_expected_target depth e n w self h Map.empty = Inr t \<and>
                  verify_header e n (Some h) ph t None skip = Inr ())))) \<and>
   (\<forall>x. can_connect depth e n w self header check_height skip = Inl x \<longleftrightarrow>
      (\<exists>h. header = Some h \<and>
         ((check_height \<and> block_height h = None \<and> x = TypeError) \<or>
          (block_height h = Some 0 \<and> (check_height \<longrightarrow> height w self = - 1) \<and>
             hash_header e (Some h) = Inl x) \<or>
          (\<exists>ht ph. block_height h = Some ht \<and> ht \<noteq> 0 \<and>
             (check_height \<longrightarrow> height w self = ht - 1) \<and>
             get_hash depth e n w self (ht - 1) = Inr ph \<and> prev_block_hash h = Some ph \<and>
             get_expected_target depth e n w self h Map.empty = Inl x \<and>
             (\<forall>m. x \<noteq> MissingHeader m))))) \<and>
   (\<forall>h. header = Some h \<and> powdata h = None \<and> \<not> TESTNET n \<longrightarrow>
      get_expected_target depth e n w self h Map.empty = Inl KeyError) \<and>
   (header = None \<longrightarrow> can_connect depth e n w self header check_height skip = Inr False) \<and>
   (\<forall>h. header = Some h \<and> block_height h = None \<and> \<not> check_height \<longrightarrow>
      can_connect depth e n w self header check_height skip = Inr False) \<and>
   (\<forall>h ht. header = Some h \<and> block_height h = Some ht \<longrightarrow>
      (check_height \<and> height w self \<noteq> ht - 1 \<longrightarrow>
         can_connect depth e n w self header check_height skip = Inr False) \<and>
      ((check_height \<longrightarrow> height w self = ht - 1) \<and> ht \<noteq> 0 \<longrightarrow>
         ((\<exists>x. get_hash depth e n w self (ht - 1) = Inl x) \<longrightarrow>
            can_connect depth e n w self header check_height skip = Inr False) \<and>
         (\<forall>ph. get_hash depth e n w self (ht - 1) = Inr ph \<longrightarrow>
            (prev_block_hash h \<noteq> Some ph \<longrightarrow>
               can_connect depth e n w self header check_height skip = Inr False) \<and>
            (prev_block_hash h = Some ph \<longrightarrow>
               ((\<exists>m. get_expected_target depth e n w self h Map.empty = Inl (MissingHeader m)) \<longrightarrow>
                  can_connect depth e n w self header check_height skip = Inr False) \<and>
               (\<forall>t x. get_expected_target depth e n w self h Map.empty = Inr t \<and>
                  verify_header e n (Some h) ph t None skip = Inl x \<longrightarrow>
                  can_connect depth e n w self header check_height skip = Inr False)))))"
  by (intro conjI)
    (rule can_connect_True_cases, rule allI, rule can_connect_raise_cases,
     rule get_expected_target_no_powdata, rule can_connect_no_header,
     rule can_connect_no_height, rule can_connect_False_cases)

theorem can_connect_outcomes_witness:
  "block_height genesis_header = Some 0 \<and>
   hash_header example_ext (Some genesis_header) = Inr (GENESIS example_net, Some genesis_header) \<and>
   can_connect 0 example_ext example_net example_world 0 (Some genesis_header) True False = Inr True \<and>
   get_hash 0 example_ext example_net genesis_world 0 (1 - 1) = Inr example_genesis \<and>
   powdata (zero_header \<lparr> prev_block_hash := Some example_genesis, block_height := Some 1 \<rparr>) = None \<and>
   \<not> TESTNET example_net \<and>
   can_connect 0 example_ext example_net genesis_world 0
     (Some (zero_header \<lparr> prev_block_hash := Some example_genesis, block_height := Some 1 \<rparr>))
     False True
     = Inl KeyError \<and>
   can_connect 0 example_ext example_net genesis_world 0
     (Some (zero_header \<lparr> block_height := None \<rparr>)) True False = Inl TypeError"
proof -
  let ?h1 = "zero_header \<lparr> prev_block_hash := Some example_genesis, block_height := Some 1 \<rparr>"
  note K = can_connect_outcomes
      [of 0 example_ext example_net genesis_world 0 "Some ?h1" False True]
  note K2 = K [THEN conjunct2, THEN conjunct1, THEN spec, of KeyError]
  note K3 = K [THEN conjunct2, THEN conjunct2, THEN conjunct1, THEN spec, of ?h1]
  note N2 = can_connect_outcomes
      [of 0 example_ext example_net genesis_world 0 "Some (zero_header \<lparr> block_height := None \<rparr>)"
          True False, THEN conjunct2, THEN conjunct1, THEN spec, of TypeError]
  have gh: "get_hash 0 example_ext example_net genesis_world 0 (1 - 1) = Inr example_genesis"
    by (simp add: get_hash_def example_net_def)
  have pw: "powdata ?h1 = None" by (simp add: zero_header_def)
  have tn: "\<not> TESTNET example_net" by (simp add: example_net_def)
  have bh: "block_height ?h1 = Some 1" by simp
  have pv: "prev_block_hash ?h1 = Some example_genesis" by simp
  have nz: "(1 :: int) \<noteq> 0" by simp
  have nm: "\<forall>m. KeyError \<noteq> MissingHeader m" by simp
  have bn: "block_height (zero_header \<lparr> block_height := None \<rparr>) = None" by simp
  from K3 pw tn
  have ke: "get_expected_target 0 example_ext example_net genesis_world 0 ?h1 Map.empty = Inl KeyError"
    by blast
  have "\<exists>h. Some ?h1 = Some h \<and>
         ((False \<and> block_height h = None \<and> KeyError = TypeError) \<or>
          (block_height h = Some 0 \<and> (False \<longrightarrow> height genesis_world 0 = - 1) \<and>
             hash_header example_ext (Some h) = Inl KeyError) \<or>
          (\<exists>ht ph. block_height h = Some ht \<and> ht \<noteq> 0 \<and>
             (False \<longrightarrow> height genesis_world 0 = ht - 1) \<and>
             get_hash 0 example_ext example_net genesis_world 0 (ht - 1) = Inr ph \<and>
             prev_block_hash h = Some ph \<and>
             get_expected_target 0 example_ext example_net genesis_world 0 h Map.empty = Inl KeyError \<and>
             (\<forall>m. KeyError \<noteq> MissingHeader m)))"
    using gh bh pv ke nz nm by blast
  with K2 have s1: "can_connect 0 example_ext example_net genesis_world 0 (Some ?h1) False True
     = Inl KeyError"
    by (rule iffD2)
  have "\<exists>h. Some (zero_header \<lparr> block_height := None \<rparr>) = Some h \<and>
         ((True \<and> block_height h = None \<and> TypeError = TypeError) \<or>
          (block_height h = Some 0 \<and> (True \<longrightarrow> height genesis_world 0 = - 1) \<and>
             hash_header example_ext (Some h) = Inl TypeError) \<or>
          (\<exists>ht ph. block_height h = Some ht \<and> ht \<noteq> 0 \<and>
             (True \<longrightarrow> height genesis_world 0 = ht - 1) \<and>
             get_hash 0 example_ext example_net genesis_world 0 (ht - 1) = Inr ph \<and>
             prev_block_hash h = Some ph \<and>
             get_expected_target 0 example_ext example_net genesis_world 0 h Map.empty = Inl TypeError \<and>
             (\<forall>m. TypeError \<noteq> MissingHeader m)))"
    using bn by blast
  with N2
  have s2: "can_connect 0 example_ext example_net genesis_world 0
     (Some (zero_header \<lparr> block_height := None \<rparr>)) True False = Inl TypeError"
    by (rule iffD2)
  have a: "block_height genesis_header = Some 0"
    by (simp add: genesis_header_def zero_header_def)
  have b: "hash_header example_ext (Some genesis_header) = Inr (GENESIS example_net, Some genesis_header)"
    by code_simp
  have c: "height example_world 0 = 0 - 1"
    by (simp add: height_def example_world_def best_chain_def)
  have "\<exists>h ht. Some genesis_header = Some h \<and> block_height h = Some ht \<and>
         (True \<longrightarrow> height example_world 0 = ht - 1) \<and>
         (if ht = 0 then (\<exists>r. hash_header example_ext (Some h) = Inr r \<and> fst r = GENESIS example_net)
          else (\<exists>ph t. get_hash 0 example_ext example_net example_world 0 (ht - 1) = Inr ph \<and>
                  prev_block_hash h = Some ph \<and>
                  get_expected_target 0 example_ext example_net example_world 0 h Map.empty = Inr t \<and>
                  verify_header example_ext example_net (Some h) ph t None False = Inr ()))"
    using a b c by (intro exI [of _ genesis_header] exI [of _ 0]) simp
  with can_connect_outcomes
      [of 0 example_ext example_net example_world 0 "Some genesis_header" True False,
       THEN conjunct1]
  have t: "can_connect 0 example_ext example_net example_world 0 (Some genesis_header) True False = Inr True"
    by (rule iffD2)
  show ?thesis by (intro conjI a b t gh pw tn s1 s2)
qed

text \<open>
  The claim as it was stated (never raises) fails: a pure header at height 1 that names
  the genesis hash as its previous hash, as \<^verbatim>\<open>deserialize_pure_header\<close> returns it,
  carries no \<^verbatim>\<open>powdata\<close>; off testnet \<^verbatim>\<open>get_expected_target\<close> raises KeyError on
  \<^verbatim>\<open>header["powdata"]\<close>, which \<^verbatim>\<open>except MissingHeader\<close> does not catch.
\<close>

theorem can_connect_raises_KeyError:
  "deserialize_pure_header ([0, 0, 0, 0] @ [0xaa] @ replicate 75 0) (Some 1)
     = Inr (zero_header \<lparr> prev_block_hash := Some example_genesis, block_height := Some 1 \<rparr>) \<and>
   TESTNET example_net = False \<and>
   height genesis_world 0 = 0 \<and>
   get_hash 0 example_ext example_net genesis_world 0 0 = Inr example_genesis \<and>
   can_connect 0 example_ext example_net genesis_world 0
     (Some (zero_header \<lparr> prev_block_hash := Some example_genesis, block_height := Some 1 \<rparr>))
     True False
     = Inl KeyError"
  by code_simp

subsection \<open>Saving a chunk\<close>

lemma path_best: "parent (objs w self) = None \<Longrightarrow> path w self = Inr ''blockchain_headers''"
  by (simp add: path_def)

lemma update_size_Inr:
  assumes "update_size w r = Inr w'"
  shows "\<exists>k. w' = upd w r (\<lambda>b. b \<lparr> bc_size := k \<rparr>)"
  using assms by (auto simp: update_size_def split: sum.splits)

lemma upd_simps [simp]:
  "files (upd w r f) = files w"
  "blockchains (upd w r f) = blockchains w"
  "objs (upd w r f) r = f (objs w r)"
  "r' \<noteq> r \<Longrightarrow> objs (upd w r f) r' = objs w r'"
  by (simp_all add: upd_def)

lemma write_file_Inr:
  assumes "write_file w r d off t = Inr w'"
  shows "\<exists>name old k. path w r = Inr name \<and> files w name = Some old \<and> 0 \<le> off \<and>
           w' = upd (w \<lparr> files := (files w)(name \<mapsto>
                   file_write (if t \<and> off \<noteq> bc_size (objs w r) * int DISK_HEADER_SIZE
                               then file_truncate old (nat off) else old) (nat off) d) \<rparr>)
                  r (\<lambda>b. b \<lparr> bc_size := k \<rparr>)"
  using assms
  by (auto simp: write_file_def assert_headers_file_available_def Let_def
           split: sum.splits if_splits dest!: update_size_Inr)

lemma swap_with_parent_no_parent:
  "parent (objs w self) = None \<Longrightarrow> swap_with_parent depth e n w self = Some (Inr w)"
  by (simp add: swap_with_parent_def swap_with_parent_loop.simps swap_with_parent_once_def)

lemma file_write_length:
  "length (file_write c pos d) = (if d = [] then length c else max (length c) (pos + length d))"
  by (auto simp: file_write_def)

lemma file_write_outside:
  "i < length c \<Longrightarrow> i < pos \<or> pos + length d \<le> i \<Longrightarrow> file_write c pos d ! i = c ! i"
  by (auto simp: file_write_def nth_append)

lemma file_write_inside:
  "i < length d \<Longrightarrow> file_write c pos d ! (pos + i) = d ! i"
proof -
  assume i: "i < length d"
  have len: "length (take pos c @ replicate (pos - length c) 0) = pos" by auto
  from i have "d \<noteq> []" by auto
  then have "file_write c pos d = (take pos c @ replicate (pos - length c) 0) @ (d @ drop (pos + length d) c)"
    by (simp add: file_write_def)
  then have "file_write c pos d ! (pos + i) = (d @ drop (pos + length d) c) ! i"
    using len by (metis nth_append_length_plus)
  then show ?thesis using i by (simp add: nth_append)
qed

lemma save_chunk_local:
  assumes "0 \<le> index"
    and "\<not> (index < int (length (CHECKPOINTS n)) \<and> parent (objs w self) \<noteq> None)"
  shows "save_chunk depth e n w self index chunk =
     (case write_file w self
             (drop (nat (- ((index * 2016 - forkpoint (objs w self)) * int DISK_HEADER_SIZE))) chunk)
             (max 0 ((index * 2016 - forkpoint (objs w self)) * int DISK_HEADER_SIZE))
             (index \<ge> int (length (CHECKPOINTS n))) of
        Inl x \<Rightarrow> Some (Inl x)
      | Inr w1 \<Rightarrow> swap_with_parent depth e n w1 self)"
proof -
  have "(if (index * 2016 - forkpoint (objs w self)) * int DISK_HEADER_SIZE < 0
         then drop (nat (- ((index * 2016 - forkpoint (objs w self)) * int DISK_HEADER_SIZE))) chunk
         else chunk)
        = drop (nat (- ((index * 2016 - forkpoint (objs w self)) * int DISK_HEADER_SIZE))) chunk"
    by simp
  moreover have "(if (index * 2016 - forkpoint (objs w self)) * int DISK_HEADER_SIZE < 0 then 0
         else (index * 2016 - forkpoint (objs w self)) * int DISK_HEADER_SIZE)
        = max 0 ((index * 2016 - forkpoint (objs w self)) * int DISK_HEADER_SIZE)"
    by simp
  moreover have "(\<not> index < int (length (CHECKPOINTS n))) = (index \<ge> int (length (CHECKPOINTS n)))"
    by auto
  ultimately show ?thesis
    using assms by (subst save_chunk.simps) (auto simp add: Let_def simp del: max.absorb1 max.absorb2 max.absorb3 max.absorb4)
qed


text \<open>
  C7. A call \<^verbatim>\<open>save_chunk(index, chunk)\<close> that is handled by the chain itself (not handed
  to the best chain) issues the write with the part of the chunk from the forkpoint on,
  at the offset \<^verbatim>\<open>max(0, delta_bytes)\<close>, and with \<^verbatim>\<open>truncate\<close> true if and only if
  \<^verbatim>\<open>index >= len(checkpoints)\<close>; \<^verbatim>\<open>swap_with_parent\<close> follows. When the chunk lies in the
  checkpoint region the call returns (it may raise), and when it returns normally the
  file is as long as before or as the write needs (a write of no bytes leaves the length as
  it was), every byte that was in the file outside the written range is unchanged, the
  written range holds the data, and no other file changes.
\<close>

theorem save_chunk_write_frame:
  "0 \<le> index \<and> \<not> (index < int (length (CHECKPOINTS n)) \<and> parent (objs w self) \<noteq> None) \<longrightarrow>
     (let delta_bytes = (index * 2016 - forkpoint (objs w self)) * int DISK_HEADER_SIZE;
          offset = max 0 delta_bytes;
          data = drop (nat (- delta_bytes)) chunk
      in save_chunk depth e n w self index chunk =
           (case write_file w self data offset (index \<ge> int (length (CHECKPOINTS n))) of
              Inl x \<Rightarrow> Some (Inl x)
            | Inr w1 \<Rightarrow> swap_with_parent depth e n w1 self) \<and>
         (index < int (length (CHECKPOINTS n)) \<longrightarrow>
            (\<exists>r. save_chunk depth e n w self index chunk = Some r) \<and>
            (\<forall>w'. save_chunk depth e n w self index chunk = Some (Inr w') \<longrightarrow>
               (\<exists>old new. files w ''blockchain_headers'' = Some old \<and>
                  files w' ''blockchain_headers'' = Some new \<and>
                  length new = (if data = [] then length old
                                else max (length old) (nat offset + length data)) \<and>
                  (\<forall>i < length old. i < nat offset \<or> nat offset + length data \<le> i \<longrightarrow>
                     new ! i = old ! i) \<and>
                  (\<forall>i < length data. new ! (nat offset + i) = data ! i)) \<and>
               (\<forall>p. p \<noteq> ''blockchain_headers'' \<longrightarrow> files w' p = files w p))))"
proof (intro impI, elim conjE)
  assume idx: "0 \<le> index"
    and local: "\<not> (index < int (length (CHECKPOINTS n)) \<and> parent (objs w self) \<noteq> None)"
  define delta_bytes where "delta_bytes = (index * 2016 - forkpoint (objs w self)) * int DISK_HEADER_SIZE"
  define offset where "offset = max 0 delta_bytes"
  define data where "data = drop (nat (- delta_bytes)) chunk"
  have eq: "save_chunk depth e n w self index chunk =
           (case write_file w self data offset (index \<ge> int (length (CHECKPOINTS n))) of
              Inl x \<Rightarrow> Some (Inl x)
            | Inr w1 \<Rightarrow> swap_with_parent depth e n w1 self)"
    unfolding data_def offset_def delta_bytes_def by (rule save_chunk_local [OF idx local])
  have frame: "(\<exists>r. save_chunk depth e n w self index chunk = Some r) \<and>
            (\<forall>w'. save_chunk depth e n w self index chunk = Some (Inr w') \<longrightarrow>
               (\<exists>old new. files w ''blockchain_headers'' = Some old \<and>
                  files w' ''blockchain_headers'' = Some new \<and>
                  length new = (if data = [] then length old
                                else max (length old) (nat offset + length data)) \<and>
                  (\<forall>i < length old. i < nat offset \<or> nat offset + length data \<le> i \<longrightarrow>
                     new ! i = old ! i) \<and>
                  (\<forall>i < length data. new ! (nat offset + i) = data ! i)) \<and>
               (\<forall>p. p \<noteq> ''blockchain_headers'' \<longrightarrow> files w' p = files w p))"
    if within: "index < int (length (CHECKPOINTS n))"
  proof -
    from within local have np: "parent (objs w self) = None" by simp
    from within have nt: "\<not> (index \<ge> int (length (CHECKPOINTS n)))" by simp
    show ?thesis
    proof (cases "write_file w self data offset False")
      case (Inl x)
      then show ?thesis using eq nt by simp
    next
      case (Inr w1)
      from write_file_Inr [OF Inr] obtain name old k where
        p: "path w self = Inr name" and old: "files w name = Some old" and
        w1: "w1 = upd (w \<lparr> files := (files w)(name \<mapsto> file_write old (nat offset) data) \<rparr>)
                  self (\<lambda>b. b \<lparr> bc_size := k \<rparr>)"
        by auto
      from p np have name: "name = ''blockchain_headers''" by (simp add: path_best)
      have np1: "parent (objs w1 self) = None" using np by (simp add: w1 upd_def)
      have res: "save_chunk depth e n w self index chunk = Some (Inr w1)"
        using eq nt Inr by (simp add: swap_with_parent_no_parent [OF np1])
      have f1: "files w1 = (files w)(''blockchain_headers'' \<mapsto> file_write old (nat offset) data)"
        by (simp add: w1 name)
      show ?thesis
        using res old name f1
        by (auto simp: file_write_length file_write_outside file_write_inside)
    qed
  qed
  show "let delta_bytes = (index * 2016 - forkpoint (objs w self)) * int DISK_HEADER_SIZE;
          offset = max 0 delta_bytes;
          data = drop (nat (- delta_bytes)) chunk
      in save_chunk depth e n w self index chunk =
           (case write_file w self data offset (index \<ge> int (length (CHECKPOINTS n))) of
              Inl x \<Rightarrow> Some (Inl x)
            | Inr w1 \<Rightarrow> swap_with_parent depth e n w1 self) \<and>
         (index < int (length (CHECKPOINTS n)) \<longrightarrow>
            (\<exists>r. save_chunk depth e n w self index chunk = Some r) \<and>
            (\<forall>w'. save_chunk depth e n w self index chunk = Some (Inr w') \<longrightarrow>
               (\<exists>old new. files w ''blockchain_headers'' = Some old \<and>
                  files w' ''blockchain_headers'' = Some new \<and>
                  length new = (if data = [] then length old
                                else max (length old) (nat offset + length data)) \<and>
                  (\<forall>i < length old. i < nat offset \<or> nat offset + length data \<le> i \<longrightarrow>
                     new ! i = old ! i) \<and>
                  (\<forall>i < length data. new ! (nat offset + i) = data ! i)) \<and>
               (\<forall>p. p \<noteq> ''blockchain_headers'' \<longrightarrow> files w' p = files w p)))"
    unfolding Let_def
    using eq frame unfolding data_def offset_def delta_bytes_def by blast
qed

theorem save_chunk_write_frame_witness:
  "(0 :: int) \<le> 0 \<and> parent (objs small_file_world 0) = None \<and>
   (0 :: int) < int (length (CHECKPOINTS example_net_cp)) \<and>
   files small_file_world ''blockchain_headers'' = Some [9, 9, 9, 9, 9] \<and>
   (\<exists>w'. save_chunk 0 example_ext example_net_cp small_file_world 0 0 [1, 2, 3] = Some (Inr w') \<and>
      files w' ''blockchain_headers'' = Some [1, 2, 3, 9, 9])"
proof -
  have a: "parent (objs small_file_world 0) = None"
    by (simp add: small_file_world_def example_world_def best_chain_def)
  have fp: "forkpoint (objs small_file_world 0) = 0"
    by (simp add: small_file_world_def example_world_def best_chain_def)
  have b: "(0 :: int) < int (length (CHECKPOINTS example_net_cp))"
    by (simp add: example_net_cp_def)
  have f: "files small_file_world ''blockchain_headers'' = Some [9, 9, 9, 9, 9]"
    by (simp add: small_file_world_def)
  have h: "(0 :: int) \<le> 0 \<and>
           \<not> (0 < int (length (CHECKPOINTS example_net_cp)) \<and> parent (objs small_file_world 0) \<noteq> None)"
    using a by simp
  have "case write_file small_file_world 0 [1, 2, 3] 0 False of
          Inl x \<Rightarrow> False
        | Inr w1 \<Rightarrow> parent (objs w1 0) = None \<and>
                    files w1 ''blockchain_headers'' = Some [1, 2, 3, 9, 9]"
    by code_simp
  then obtain w1 where wf: "write_file small_file_world 0 [1, 2, 3] 0 False = Inr w1"
    and p1: "parent (objs w1 0) = None"
    and f1: "files w1 ''blockchain_headers'' = Some [1, 2, 3, 9, 9]"
    by (cases "write_file small_file_world 0 [1, 2, 3] 0 False") auto
  have "save_chunk 0 example_ext example_net_cp small_file_world 0 0 [1, 2, 3] = Some (Inr w1)"
    using save_chunk_write_frame [where index = 0 and n = example_net_cp and w = small_file_world
        and self = 0 and depth = 0 and e = example_ext and chunk = "[1, 2, 3]"] h b wf fp
      swap_with_parent_no_parent [OF p1, of 0 example_ext example_net_cp]
    by (simp add: Let_def)
  then show ?thesis using a b f f1 by simp
qed

subsection \<open>Swapping with the parent\<close>

lemma hexchar_all: "\<forall>k \<in> set [0..<16]. hexval (hexchar k) = Some k \<and> \<not> is_space (hexchar k)"
  by code_simp

lemma hexchar_cases:
  assumes "k < 16"
  shows "hexval (hexchar k) = Some k \<and> \<not> is_space (hexchar k)"
  using assms hexchar_all by simp

lemma byte_nibbles: "(of_nat (unat b div 16 * 16 + unat b mod 16) :: 8 word) = b"
  by simp

lemma bfh_bh2u: "bfh (bh2u bs) = Inr bs"
proof (induction bs)
  case Nil
  then show ?case by (simp add: bh2u_def)
next
  case (Cons b bs)
  have "unat b < 256" using unsigned_less [of b, where 'a = nat] by simp
  then have hi: "unat b div 16 < 16" by simp
  have lo: "unat b mod 16 < 16" by simp
  have "bh2u (b # bs) = hexchar (unat b div 16) # hexchar (unat b mod 16) # bh2u bs"
    by (simp add: bh2u_def)
  then show ?case
    using Cons hexchar_cases [OF hi] hexchar_cases [OF lo] by (simp add: byte_nibbles)
qed



lemma path_files_update [simp]: "path (w \<lparr> files := f \<rparr>) r = path w r"
  by (simp add: path_def Let_def)

lemma path_upd_other [simp]: "r' \<noteq> r \<Longrightarrow> path (upd w r' f) r = path w r"
  by (simp add: path_def Let_def)

lemma path_upd_size [simp]: "path (upd w r' (\<lambda>b. b \<lparr> bc_size := k \<rparr>)) r = path w r"
  by (cases "r' = r") (simp_all add: path_def Let_def split: option.splits)












subsection \<open>Round trip of the compact encoding\<close>

lemma fmt_064x_regtest_limit:
  "fmt_064x 0x7fffff0000000000000000000000000000000000000000000000000000000000
     = ''7fffff0000000000000000000000000000000000000000000000000000000000''"
  by (simp add: fmt_064x_def zfill_def hexchar_def)

lemma strip00_regtest_limit:
  "strip00 ''ffff0000000000000000000000000000000000000000000000000000000000''
     = ''ffff0000000000000000000000000000000000000000000000000000000000''"
  by (subst strip00.simps) simp

text \<open>
  C2. The bits value \<^verbatim>\<open>0x207fffff\<close> has the exponent \<^verbatim>\<open>0x20\<close> and the mantissa
  \<^verbatim>\<open>0x7fffff\<close>, both in range, and \<^verbatim>\<open>bits_to_target\<close> accepts it. The target has 64
  hexadecimal digits with a top byte that is not zero; \<^verbatim>\<open>target_to_bits\<close> drops the
  first two characters of \<^verbatim>\<open>"%064x" % target\<close> and returns \<^verbatim>\<open>0x2000ffff\<close>, which is
  not the value the round trip started from.
\<close>

theorem target_to_bits_loses_top_byte:
  "drop_bit 24 (0x207fffff :: int) = 0x20 \<and> (0x207fffff :: int) AND 0xffffff = 0x7fffff \<and>
   bits_to_target 0x207fffff
     = Inr 0x7fffff0000000000000000000000000000000000000000000000000000000000 \<and>
   target_to_bits 0x7fffff0000000000000000000000000000000000000000000000000000000000
     = Inr 0x2000ffff"
proof -
  have a: "drop_bit 24 (0x207fffff :: int) = 0x20 \<and> (0x207fffff :: int) AND 0xffffff = 0x7fffff"
    by simp
  have b: "bits_to_target 0x207fffff
             = Inr 0x7fffff0000000000000000000000000000000000000000000000000000000000"
    by (simp add: bits_to_target_def)
  have c: "target_to_bits 0x7fffff0000000000000000000000000000000000000000000000000000000000
             = Inr 0x2000ffff"
    unfolding target_to_bits_def fmt_064x_regtest_limit
    by (simp add: strip00_regtest_limit hexval_def is_space_def from_bytes_big_def Let_def)
  show ?thesis using a b c by simp
qed

subsection \<open>The compact encoding below 32 bytes\<close>

declare hex_digits.simps [simp del]

lemma hexchar_0: "hexchar 0 = CHR ''0''"
  by (simp add: hexchar_def)

lemma hex_digits_small: "n < 16 \<Longrightarrow> hex_digits n = [hexchar n]"
  by (subst hex_digits.simps) simp

lemma hex_digits_big: "16 \<le> n \<Longrightarrow> hex_digits n = hex_digits (n div 16) @ [hexchar (n mod 16)]"
  by (subst hex_digits.simps) simp

lemma hex_digits_times16:
  assumes "0 < n"
  shows "hex_digits (n * 16) = hex_digits n @ ''0''"
proof -
  have "16 \<le> n * 16" using assms by simp
  then have "hex_digits (n * 16) = hex_digits (n * 16 div 16) @ [hexchar (n * 16 mod 16)]"
    by (rule hex_digits_big)
  then show ?thesis by (simp add: hexchar_0)
qed

lemma hex_digits_times256_pow:
  assumes "0 < n"
  shows "hex_digits (n * 256 ^ k) = hex_digits n @ replicate (2 * k) CHR ''0''"
proof (induction k)
  case 0
  then show ?case by simp
next
  case (Suc k)
  have pos: "0 < n * 256 ^ k" using assms by simp
  have pos16: "0 < n * 256 ^ k * 16" using assms by simp
  have "n * 256 ^ Suc k = (n * 256 ^ k * 16) * 16" by simp
  then have "hex_digits (n * 256 ^ Suc k) = hex_digits ((n * 256 ^ k * 16) * 16)" by (simp only:)
  also have "\<dots> = hex_digits (n * 256 ^ k * 16) @ ''0''" by (rule hex_digits_times16 [OF pos16])
  also have "\<dots> = (hex_digits (n * 256 ^ k) @ ''0'') @ ''0''" by (simp only: hex_digits_times16 [OF pos])
  also have "\<dots> = hex_digits n @ replicate (2 * Suc k) CHR ''0''"
    by (simp add: Suc.IH replicate_append_same)
  finally show ?case .
qed

lemma zfill_step:
  assumes "1 \<le> j"
  shows "zfill (Suc j) (hex_digits n) = zfill j (hex_digits (n div 16)) @ [hexchar (n mod 16)]"
proof (cases "n < 16")
  case True
  then have "zfill (Suc j) (hex_digits n) = replicate j CHR ''0'' @ [hexchar n]"
    by (simp add: zfill_def hex_digits_small)
  moreover have "zfill j (hex_digits (n div 16)) = replicate j CHR ''0''"
    using True assms by (cases j) (simp_all add: zfill_def hex_digits_small hexchar_0 replicate_append_same)
  ultimately show ?thesis using True by simp
next
  case False
  then have "hex_digits n = hex_digits (n div 16) @ [hexchar (n mod 16)]" by (simp add: hex_digits_big)
  then show ?thesis by (simp add: zfill_def Suc_diff_le)
qed

lemma hex_digits_length:
  "1 \<le> j \<Longrightarrow> n < 16 ^ j \<Longrightarrow> length (hex_digits n) \<le> j"
proof (induction j arbitrary: n)
  case 0
  then show ?case by simp
next
  case (Suc j)
  show ?case
  proof (cases "n < 16")
    case True
    then show ?thesis by (simp add: hex_digits_small)
  next
    case False
    then have j1: "1 \<le> j" using Suc.prems by (cases j) simp_all
    have "n div 16 < 16 ^ j" using Suc.prems by (simp add: less_mult_imp_div_less)
    from Suc.IH [OF j1 this] False show ?thesis by (simp add: hex_digits_big)
  qed
qed

lemma zfill_byte:
  assumes "n < 256"
  shows "zfill 2 (hex_digits n) = [hexchar (n div 16), hexchar (n mod 16)]"
proof -
  have "n div 16 < 16" using assms by simp
  then have "zfill 1 (hex_digits (n div 16)) = [hexchar (n div 16)]"
    by (simp add: hex_digits_small zfill_def)
  moreover have "zfill (Suc 1) (hex_digits n) = zfill 1 (hex_digits (n div 16)) @ [hexchar (n mod 16)]"
    by (rule zfill_step) simp
  ultimately show ?thesis by (simp add: numeral_2_eq_2)
qed

lemma bh2u_Cons: "bh2u (b # bs) = hexchar (unat b div 16) # hexchar (unat b mod 16) # bh2u bs"
  by (simp add: bh2u_def)

lemma bh2u_Nil: "bh2u [] = []"
  by (simp add: bh2u_def)

lemma bh2u_append: "bh2u (xs @ ys) = bh2u xs @ bh2u ys"
  by (simp add: bh2u_def)

lemma bh2u_length: "length (bh2u bs) = 2 * length bs"
  by (induction bs) (simp_all add: bh2u_Cons bh2u_Nil)

lemma bh2u_zeros: "bh2u (replicate j 0) = replicate (2 * j) CHR ''0''"
  by (induction j) (simp_all add: bh2u_Cons bh2u_Nil hexchar_0)

lemma unat_byte: "unat (of_nat x :: 8 word) = x mod 256"
  by (simp add: unat_of_nat)

lemma nib4: "(m::nat) div 16 div 16 div 16 div 16 = m div 65536"
  by (simp add: div_mult2_eq [symmetric])
lemma top_byte: "(m::nat) < 2 ^ 24 \<Longrightarrow> m div 65536 < 256"
  by (simp add: less_mult_imp_div_less)
lemma nib_d: "(m::nat) mod 256 div 16 = m div 16 mod 16"
  using mod_mult2_eq [of m 16 16] by simp
lemma nib_e: "(m::nat) mod 256 mod 16 = m mod 16"
  by (simp add: mod_mod_cancel)
lemma nib_b: "(m::nat) div 256 mod 256 div 16 = m div 16 div 16 div 16 mod 16"
  using nib_d [of "m div 256"] by (simp add: div_mult2_eq [symmetric])
lemma nib_c: "(m::nat) div 256 mod 256 mod 16 = m div 16 div 16 mod 16"
  using nib_e [of "m div 256"] by (simp add: div_mult2_eq [symmetric])

lemma zfill_bytes3:
  assumes "m < 2 ^ 24"
  shows "zfill 6 (hex_digits m)
           = bh2u [of_nat (m div 65536), of_nat (m div 256 mod 256), of_nat (m mod 256)]"
proof -
  have s1: "zfill 6 (hex_digits m) = zfill 5 (hex_digits (m div 16)) @ [hexchar (m mod 16)]"
    using zfill_step [of 5 m] by simp
  have s2: "zfill 5 (hex_digits (m div 16))
              = zfill 4 (hex_digits (m div 16 div 16)) @ [hexchar (m div 16 mod 16)]"
    using zfill_step [of 4 "m div 16"] by simp
  have s3: "zfill 4 (hex_digits (m div 16 div 16))
              = zfill 3 (hex_digits (m div 16 div 16 div 16)) @ [hexchar (m div 16 div 16 mod 16)]"
    using zfill_step [of 3 "m div 16 div 16"] by simp
  have s4: "zfill 3 (hex_digits (m div 16 div 16 div 16))
              = zfill 2 (hex_digits (m div 16 div 16 div 16 div 16))
                  @ [hexchar (m div 16 div 16 div 16 mod 16)]"
    using zfill_step [of 2 "m div 16 div 16 div 16"] by simp
  have top: "m div 65536 < 256" using assms by (rule top_byte)
  have s5: "zfill 2 (hex_digits (m div 16 div 16 div 16 div 16))
               = [hexchar (m div 65536 div 16), hexchar (m div 65536 mod 16)]"
    unfolding nib4 by (rule zfill_byte [OF top])
  have lhs: "zfill 6 (hex_digits m)
          = [hexchar (m div 65536 div 16), hexchar (m div 65536 mod 16),
             hexchar (m div 16 div 16 div 16 mod 16), hexchar (m div 16 div 16 mod 16),
             hexchar (m div 16 mod 16), hexchar (m mod 16)]"
    by (simp only: s1 s2 s3 s4 s5 append.simps)
  have a: "m div 65536 mod 256 = m div 65536" using top by simp
  have rhs: "bh2u [of_nat (m div 65536), of_nat (m div 256 mod 256), of_nat (m mod 256) :: 8 word]
          = [hexchar (m div 65536 mod 256 div 16), hexchar (m div 65536 mod 256 mod 16),
             hexchar (m div 256 mod 256 mod 256 div 16), hexchar (m div 256 mod 256 mod 256 mod 16),
             hexchar (m mod 256 mod 256 div 16), hexchar (m mod 256 mod 256 mod 16)]"
    by (simp only: bh2u_Cons bh2u_Nil unat_byte)
  have q: "m div 16 div 16 = m div 256" by (simp add: div_mult2_eq [symmetric])
  show ?thesis
    by (simp only: lhs rhs a mod_mod_trivial nib_b nib_c nib_d nib_e q)
qed

declare strip00.simps [simp del]

lemma fmt_064x_bytes:
  assumes m0: "0 < m" and m24: "m < 2 ^ 24" and k: "k \<le> 29"
  shows "fmt_064x (int (m * 256 ^ k))
           = bh2u (replicate (29 - k) 0
                   @ [of_nat (m div 65536), of_nat (m div 256 mod 256), of_nat (m mod 256)]
                   @ replicate k 0)"
proof -
  have "m < 16 ^ 6" using m24 by simp
  then have L: "length (hex_digits m) \<le> 6" by (intro hex_digits_length) simp_all
  have split: "64 - (length (hex_digits m) + 2 * k) = 2 * (29 - k) + (6 - length (hex_digits m))"
    using L k by simp
  have "fmt_064x (int (m * 256 ^ k)) = zfill 64 (hex_digits (nat (int (m * 256 ^ k))))"
    by (simp only: fmt_064x_def of_nat_0_le_iff if_True)
  also have "\<dots> = zfill 64 (hex_digits (m * 256 ^ k))"
    by (simp only: nat_int)
  also have "\<dots> = zfill 64 (hex_digits m @ replicate (2 * k) CHR ''0'')"
    by (simp only: hex_digits_times256_pow [OF m0])
  also have "\<dots> = replicate (2 * (29 - k)) CHR ''0'' @ zfill 6 (hex_digits m) @ replicate (2 * k) CHR ''0''"
    by (simp add: zfill_def split replicate_add)
  also have "\<dots> = bh2u (replicate (29 - k) 0
                   @ [of_nat (m div 65536), of_nat (m div 256 mod 256), of_nat (m mod 256)]
                   @ replicate k 0)"
    by (simp only: bh2u_append bh2u_zeros zfill_bytes3 [OF m24])
  finally show ?thesis .
qed

lemma hexchar_eq_0: "x < 16 \<Longrightarrow> hexchar x = CHR ''0'' \<longleftrightarrow> x = 0"
proof
  assume x: "x < 16" and "hexchar x = CHR ''0''"
  then have "hexval (hexchar x) = hexval (hexchar 0)" by (simp add: hexchar_0)
  then show "x = 0" using hexchar_cases [OF x] hexchar_cases [of 0] by simp
next
  assume "x = 0" then show "hexchar x = CHR ''0''" by (simp add: hexchar_0)
qed

lemma take2_bh2u: "take 2 (bh2u (b # bs)) = ''00'' \<longleftrightarrow> b = 0"
proof -
  have lt: "unat b < 256" using unsigned_less [of b, where 'a = nat] by simp
  then have hi: "unat b div 16 < 16" and lo: "unat b mod 16 < 16" by simp_all
  have "take 2 (bh2u (b # bs)) = [hexchar (unat b div 16), hexchar (unat b mod 16)]"
    by (simp add: bh2u_Cons)
  then have "take 2 (bh2u (b # bs)) = ''00'' \<longleftrightarrow> unat b div 16 = 0 \<and> unat b mod 16 = 0"
    using hexchar_eq_0 [OF hi] hexchar_eq_0 [OF lo] by simp
  also have "\<dots> \<longleftrightarrow> unat b = 0" by presburger
  also have "\<dots> \<longleftrightarrow> b = 0" by (simp add: unat_eq_0)
  finally show ?thesis .
qed

lemma strip00_zero:
  "3 \<le> length bs \<Longrightarrow> strip00 (bh2u (0 # bs)) = strip00 (bh2u bs)"
proof -
  assume l: "3 \<le> length bs"
  have t: "take 2 (bh2u (0 # bs)) = ''00''" by (simp add: take2_bh2u)
  have g: "6 < length (bh2u (0 # bs))" using l by (simp add: bh2u_length)
  have d: "drop 2 (bh2u (0 # bs)) = bh2u bs" by (simp add: bh2u_Cons)
  show ?thesis
    by (subst strip00.simps) (simp only: t g d simp_thms if_True)
qed

lemma strip00_stop:
  "b \<noteq> 0 \<or> length bs \<le> 2 \<Longrightarrow> strip00 (bh2u (b # bs)) = bh2u (b # bs)"
proof -
  assume a: "b \<noteq> 0 \<or> length bs \<le> 2"
  have "\<not> (take 2 (bh2u (b # bs)) = ''00'' \<and> 6 < length (bh2u (b # bs)))"
    using a by (auto simp: take2_bh2u bh2u_length)
  then show ?thesis
    by (subst strip00.simps) (simp only: if_False)
qed

lemma strip00_zeros:
  "3 \<le> length bs \<Longrightarrow> strip00 (bh2u (replicate j 0 @ bs)) = strip00 (bh2u bs)"
  by (induction j) (simp_all add: strip00_zero)

lemma take_bh2u: "take (2 * j) (bh2u cs) = bh2u (take j cs)"
proof (induction cs arbitrary: j)
  case Nil
  then show ?case by (simp add: bh2u_Nil)
next
  case (Cons c cs)
  then show ?case by (cases j) (simp_all add: bh2u_Cons bh2u_Nil)
qed

lemma target_to_bits_bytes:
  assumes "fmt_064x t = bh2u (b # bs)" and "strip00 (bh2u bs) = bh2u cs"
  shows "target_to_bits t =
     (if from_bytes_big (take 3 cs) \<ge> 0x800000
      then Inr (push_bit 24 (int (length cs) + 1) OR drop_bit 8 (from_bytes_big (take 3 cs)))
      else Inr (push_bit 24 (int (length cs)) OR from_bytes_big (take 3 cs)))"
proof -
  have d: "drop 2 (fmt_064x t) = bh2u bs" using assms(1) by (simp add: bh2u_Cons)
  have t6: "take 6 (bh2u cs) = bh2u (take 3 cs)" using take_bh2u [of 3 cs] by simp
  have "target_to_bits t =
     (case bfh (take 6 (strip00 (drop 2 (fmt_064x t)))) of
        Inl x \<Rightarrow> Inl x
      | Inr bs' \<Rightarrow>
          if from_bytes_big bs' \<ge> 0x800000
          then Inr (push_bit 24 (int (length (strip00 (drop 2 (fmt_064x t))) div 2) + 1)
                      OR drop_bit 8 (from_bytes_big bs'))
          else Inr (push_bit 24 (int (length (strip00 (drop 2 (fmt_064x t))) div 2))
                      OR from_bytes_big bs'))"
    by (simp add: target_to_bits_def Let_def split: sum.splits)
  then show ?thesis
    unfolding d assms(2) t6 bfh_bh2u by (simp add: bh2u_length)
qed

lemma uint_byte: "uint (of_nat x :: 8 word) = int (x mod 256)"
  by (simp add: uint_nat unat_byte)

lemma three_bytes_nat:
  "(m::nat) div 65536 * 65536 + m div 256 mod 256 * 256 + m mod 256 = m"
proof -
  have e1: "m div 65536 * 65536 + m mod 65536 = m" by simp
  have e2: "m mod 65536 = m div 256 mod 256 * 256 + m mod 256"
    using mod_mult2_eq [of m 256 256] by simp
  show ?thesis using e1 e2 by linarith
qed

lemma from_bytes_big3:
  assumes "m < 2 ^ 24"
  shows "from_bytes_big [of_nat (m div 65536), of_nat (m div 256 mod 256), of_nat (m mod 256) :: 8 word]
           = int m"
proof -
  have "m div 65536 < 256" using assms by (rule top_byte)
  then have a: "m div 65536 mod 256 = m div 65536" by simp
  have "from_bytes_big [of_nat (m div 65536), of_nat (m div 256 mod 256), of_nat (m mod 256) :: 8 word]
          = (int (m div 65536 mod 256) * 256 + int (m div 256 mod 256 mod 256)) * 256
              + int (m mod 256 mod 256)"
    by (simp only: from_bytes_big_def foldl.simps uint_byte mult_zero_left add_0)
  also have "\<dots> = int (m div 65536 * 65536 + m div 256 mod 256 * 256 + m mod 256)"
    unfolding a mod_mod_trivial by (simp only: of_nat_add of_nat_mult of_nat_numeral) algebra
  also have "\<dots> = int m" by (simp only: three_bytes_nat)
  finally show ?thesis .
qed

lemma byte_eq_0: "(of_nat x :: 8 word) = 0 \<longleftrightarrow> x mod 256 = 0"
  using unat_byte [of x] by (metis unat_eq_0)

lemma from_bytes_big_low0: "from_bytes_big [x, y, 0 :: 8 word] = (uint x * 256 + uint y) * 256"
  by (simp add: from_bytes_big_def)

lemma from_bytes_big_shifted:
  assumes "m < 2 ^ 16"
  shows "from_bytes_big [of_nat (m div 256 mod 256), of_nat (m mod 256), 0 :: 8 word] = int m * 256"
proof -
  have "m div 256 < 256" using assms by (simp add: less_mult_imp_div_less)
  then have a: "m div 256 mod 256 = m div 256" by simp
  have "from_bytes_big [of_nat (m div 256 mod 256), of_nat (m mod 256), 0 :: 8 word]
          = (int (m div 256 mod 256 mod 256) * 256 + int (m mod 256 mod 256)) * 256"
    using from_bytes_big_low0 [of "of_nat (m div 256 mod 256)" "of_nat (m mod 256)"]
    by (simp only: uint_byte)
  also have "\<dots> = int (m div 256 * 256 + m mod 256) * 256"
    unfolding a mod_mod_trivial by (simp only: of_nat_add of_nat_mult of_nat_numeral)
  also have "\<dots> = int m * 256" by (simp only: div_mult_mod_eq)
  finally show ?thesis .
qed

lemma target_to_bits_compact:
  assumes lo: "0x8000 \<le> m" and hi: "m \<le> 0x7fffff" and k: "k \<le> 29"
    and ok: "k \<le> 28 \<or> m \<le> 0xffff"
  shows "target_to_bits (int (m * 256 ^ k)) = Inr (push_bit 24 (int k + 3) OR int m)"
proof -
  let ?b2 = "of_nat (m div 65536) :: 8 word"
  let ?b1 = "of_nat (m div 256 mod 256) :: 8 word"
  let ?b0 = "of_nat (m mod 256) :: 8 word"
  have m0: "0 < m" using lo by simp
  have m24: "m < 2 ^ 24" using hi by simp
  have fmt: "fmt_064x (int (m * 256 ^ k)) = bh2u (replicate (29 - k) 0 @ [?b2, ?b1, ?b0] @ replicate k 0)"
    by (rule fmt_064x_bytes [OF m0 m24 k])
  show ?thesis
  proof (cases "m \<le> 0xffff")
    case False
    then have k28: "k \<le> 28" using ok by simp
    have "m div 65536 \<noteq> 0" using False by simp
    moreover have "m div 65536 < 256" using m24 by (rule top_byte)
    ultimately have b2: "?b2 \<noteq> 0" by (simp add: byte_eq_0)
    have r: "replicate (29 - k) (0 :: 8 word) = 0 # replicate (28 - k) 0"
      using k28 by (simp add: Suc_diff_le replicate_Suc [symmetric] del: replicate_Suc)
    have f: "fmt_064x (int (m * 256 ^ k))
               = bh2u (0 # (replicate (28 - k) 0 @ ([?b2, ?b1, ?b0] @ replicate k 0)))"
      unfolding fmt r by simp
    have s: "strip00 (bh2u (replicate (28 - k) 0 @ ([?b2, ?b1, ?b0] @ replicate k 0)))
               = bh2u ([?b2, ?b1, ?b0] @ replicate k 0)"
      using b2 by (simp add: strip00_zeros strip00_stop)
    have B: "from_bytes_big (take 3 ([?b2, ?b1, ?b0] @ replicate k 0)) = int m"
      using from_bytes_big3 [OF m24] by simp
    show ?thesis
      unfolding target_to_bits_bytes [OF f s] B using hi by (simp add: add.commute)
  next
    case True
    then have m16: "m < 2 ^ 16" by simp
    then have b2: "?b2 = 0" by simp
    have "128 \<le> m div 256" using lo by simp
    moreover have "m div 256 < 256" using m16 by (simp add: less_mult_imp_div_less)
    ultimately have b1: "?b1 \<noteq> 0" by (simp add: byte_eq_0)
    show ?thesis
    proof (cases "k = 0")
      case k0: True
      have r0: "replicate 29 (0 :: 8 word) = 0 # replicate 28 0"
        by (simp add: numeral_eq_Suc)
      have f: "fmt_064x (int (m * 256 ^ k)) = bh2u (0 # (replicate 28 0 @ [0, ?b1, ?b0]))"
        unfolding fmt b2 using k0 r0 by simp
      have s: "strip00 (bh2u (replicate 28 0 @ [0, ?b1, ?b0])) = bh2u [0, ?b1, ?b0]"
        by (simp add: strip00_zeros strip00_stop)
      have B: "from_bytes_big (take 3 [0, ?b1, ?b0]) = int m"
        using from_bytes_big3 [OF m24] b2 by simp
      show ?thesis
        unfolding target_to_bits_bytes [OF f s] B using hi k0 by simp
    next
      case k1: False
      have f: "fmt_064x (int (m * 256 ^ k))
                 = bh2u (0 # (replicate (29 - k) 0 @ ([?b1, ?b0] @ replicate k 0)))"
        unfolding fmt b2 by (simp add: replicate_app_Cons_same)
      have l3: "3 \<le> length ([?b1, ?b0] @ replicate k 0)" using k1 by simp
      have s: "strip00 (bh2u (replicate (29 - k) 0 @ ([?b1, ?b0] @ replicate k 0)))
                 = bh2u ([?b1, ?b0] @ replicate k 0)"
        using b1 strip00_zeros [OF l3, of "29 - k"] by (simp add: strip00_stop)
      have t3: "take 3 ([?b1, ?b0] @ replicate k 0) = [?b1, ?b0, 0]"
        using k1 by (cases k) simp_all
      have B: "from_bytes_big (take 3 ([?b1, ?b0] @ replicate k 0)) = int m * 256"
        unfolding t3 by (rule from_bytes_big_shifted [OF m16])
      have ge: "(0x800000 :: int) \<le> int m * 256" using lo by simp
      have db: "drop_bit 8 (int m * 256) = int m"
        by (simp add: drop_bit_eq_div)
      show ?thesis
        unfolding target_to_bits_bytes [OF f s] B using ge by (simp add: db add.commute)
    qed
  qed
qed

lemma compact_split: "push_bit 24 (drop_bit 24 (b :: int)) OR (b AND 0xffffff) = b"
proof -
  have m: "(0xffffff :: int) = mask 24" by (simp add: mask_eq_exp_minus_1)
  show ?thesis
    unfolding m by (rule bit_eqI) (auto simp: bit_simps)
qed

lemma low_byte_self: "0 \<le> (e :: int) \<Longrightarrow> e < 256 \<Longrightarrow> e AND 0xff = e"
proof -
  assume a: "0 \<le> e" "e < 256"
  have m: "(0xff :: int) = mask 8" by (simp add: mask_eq_exp_minus_1)
  have "e AND mask 8 = take_bit 8 e" by (simp add: take_bit_eq_mask)
  also have "\<dots> = e" using a by (simp add: take_bit_int_eq_self)
  finally show ?thesis unfolding m .
qed

text \<open>
  Where the round trip of the compact encoding holds: for every bits value with the
  exponent in \<^verbatim>\<open>[0x03, 0x20]\<close> and the mantissa in \<^verbatim>\<open>[0x8000, 0x7fffff]\<close>, provided the
  exponent is at most \<^verbatim>\<open>0x1f\<close> or the mantissa at most \<^verbatim>\<open>0xffff\<close>, \<^verbatim>\<open>bits_to_target\<close>
  accepts the value and \<^verbatim>\<open>target_to_bits\<close> of its result gives it back. What is left out
  is the exponent \<^verbatim>\<open>0x20\<close> with a mantissa of three bytes, where the target needs all
  32 bytes and \<^verbatim>\<open>target_to_bits\<close> reads 31.
\<close>

theorem compact_round_trip:
  assumes e3: "0x03 \<le> drop_bit 24 bits'" and e20: "drop_bit 24 bits' \<le> 0x20"
    and mlo: "0x8000 \<le> bits' AND 0xffffff" and mhi: "bits' AND 0xffffff \<le> 0x7fffff"
    and ok: "drop_bit 24 bits' \<le> 0x1f \<or> bits' AND 0xffffff \<le> 0xffff"
  shows "\<exists>t. bits_to_target bits' = Inr t \<and> target_to_bits t = Inr bits'"
proof -
  define e where "e = drop_bit 24 bits'"
  define mi where "mi = bits' AND 0xffffff"
  define m where "m = nat mi"
  define k where "k = nat (e - 3)"
  have n: "e AND 0xff = e"
    using e3 e20 unfolding e_def by (intro low_byte_self) linarith+
  have mi: "mi = int m" using mlo by (simp add: m_def mi_def)
  have ek: "e = int k + 3" using e3 by (simp add: k_def e_def)
  have sh: "nat (8 * (e - 3)) = 8 * k" using e3 by (simp add: k_def e_def nat_mult_distrib)
  have t: "push_bit (nat (8 * (e - 3))) mi = int (m * 256 ^ k)"
    unfolding sh mi by (simp add: push_bit_eq_mult power_mult)
  have b2t: "bits_to_target bits' = Inr (int (m * 256 ^ k))"
    using e3 e20 mlo mhi t
    by (simp add: bits_to_target_def n Let_def e_def [symmetric] mi_def [symmetric])
  have c1: "0x8000 \<le> m" "m \<le> 0x7fffff" using mlo mhi by (simp_all add: m_def mi_def)
  have c2: "k \<le> 29" using e20 e3 by (simp add: k_def e_def)
  have c3: "k \<le> 28 \<or> m \<le> 0xffff" using ok e3 mlo by (auto simp: k_def e_def m_def mi_def)
  have "target_to_bits (int (m * 256 ^ k)) = Inr (push_bit 24 (int k + 3) OR int m)"
    by (rule target_to_bits_compact [OF c1 c2 c3])
  also have "push_bit 24 (int k + 3) OR int m = bits'"
    unfolding ek [symmetric] mi [symmetric] e_def mi_def by (rule compact_split)
  finally show ?thesis using b2t by blast
qed

end
